theory Spec2Isabelle
  imports Complex_Main "HOL-Library.Sublist" "HOL-Library.AList"
begin

section \<open>Python values\<close>

text \<open>
  The pipeline of \<^verbatim>\<open>backend/chain.py\<close> works on whatever \<^verbatim>\<open>json.loads\<close> returns, so
  the values are modelled dynamically.  A dict is an association list in insertion order
  (\<^verbatim>\<open>json.loads\<close> produces distinct keys); a number is the exact rational value of the
  Python int or float, and Python compares ints and floats by their exact values.
  Non-finite floats are outside the model.  A Python \<^verbatim>\<open>str\<close> is its UTF-8 text.
\<close>

datatype json =
    JNull
  | JBool bool
  | JNum rat
  | JStr string
  | JArr "json list"
  | JObj "(string \<times> json) list"

text \<open>Every exception the modelled code can raise is a value; \<open>Inl\<close> is a raise.\<close>

datatype py_error =
    TypeError
  | AttributeError
  | KeyError
  | IndexError
  | UnicodeDecodeError
  | ValueError string
  | RequestException

type_synonym pydict = "(string \<times> json) list"

definition dict_get_default :: "pydict \<Rightarrow> string \<Rightarrow> json \<Rightarrow> json" where
  "dict_get_default d k dflt = (case map_of d k of None \<Rightarrow> dflt | Some v \<Rightarrow> v)"

text \<open>\<^verbatim>\<open>d[k] = v\<close>: an existing key keeps its place, a new key goes last.\<close>

definition dict_set :: "pydict \<Rightarrow> string \<Rightarrow> json \<Rightarrow> pydict" where
  "dict_set d k v = AList.update k v d"

text \<open>\<^verbatim>\<open>x.get(k, dflt)\<close>: only a dict has the method.\<close>

fun py_get :: "json \<Rightarrow> string \<Rightarrow> json \<Rightarrow> py_error + json" where
  "py_get (JObj d) k dflt = Inr (dict_get_default d k dflt)"
| "py_get _ k dflt = Inl AttributeError"

text \<open>Truth value of a value in a condition.\<close>

fun truthy :: "json \<Rightarrow> bool" where
  "truthy JNull = False"
| "truthy (JBool b) = b"
| "truthy (JNum n) = (n \<noteq> 0)"
| "truthy (JStr s) = (s \<noteq> [])"
| "truthy (JArr xs) = (xs \<noteq> [])"
| "truthy (JObj d) = (d \<noteq> [])"

text \<open>The value of the float literal \<^verbatim>\<open>0.7\<close>: the double nearest to 7/10, which is
  \<open>3152519739159347 / 2\<^sup>5\<^sup>2\<close>, a little below 7/10.  It is the threshold of the gate
  and of the classification, and what \<^verbatim>\<open>json.loads\<close> makes of the text \<^verbatim>\<open>0.7\<close> or
  \<^verbatim>\<open>0.70\<close>.\<close>

definition FLOAT_0_7 :: rat where
  "FLOAT_0_7 = 3152519739159347 / 4503599627370496"

text \<open>\<^verbatim>\<open>x < c\<close> and \<^verbatim>\<open>x >= c\<close> against a float: numbers and bools compare, anything
  else raises \<^verbatim>\<open>TypeError\<close>.\<close>

fun py_lt :: "json \<Rightarrow> rat \<Rightarrow> py_error + bool" where
  "py_lt (JNum n) c = Inr (n < c)"
| "py_lt (JBool b) c = Inr ((if b then 1 else 0) < c)"
| "py_lt _ c = Inl TypeError"

fun py_ge :: "json \<Rightarrow> rat \<Rightarrow> py_error + bool" where
  "py_ge (JNum n) c = Inr (n \<ge> c)"
| "py_ge (JBool b) c = Inr ((if b then 1 else 0) \<ge> c)"
| "py_ge _ c = Inl TypeError"

text \<open>\<^verbatim>\<open>len(x)\<close>.  For a string only whether it is empty is ever used.\<close>

fun py_len :: "json \<Rightarrow> py_error + nat" where
  "py_len (JArr xs) = Inr (length xs)"
| "py_len (JStr s) = Inr (length s)"
| "py_len (JObj d) = Inr (length d)"
| "py_len _ = Inl TypeError"

text \<open>The items a \<^verbatim>\<open>for\<close> over the value visits: the elements of a list, the keys of a
  dict, the one-character strings of a string.\<close>

fun py_iter :: "json \<Rightarrow> py_error + json list" where
  "py_iter (JArr xs) = Inr xs"
| "py_iter (JStr s) = Inr (map (\<lambda>c. JStr [c]) s)"
| "py_iter (JObj d) = Inr (map (\<lambda>kv. JStr (fst kv)) d)"
| "py_iter _ = Inl TypeError"

text \<open>\<^verbatim>\<open>s in x\<close> for a string \<open>s\<close>: membership in a list, substring of a string, key of
  a dict.\<close>

fun py_contains :: "string \<Rightarrow> json \<Rightarrow> py_error + bool" where
  "py_contains s (JArr xs) = Inr (JStr s \<in> set xs)"
| "py_contains s (JStr t) = Inr (sublist s t)"
| "py_contains s (JObj d) = Inr (s \<in> set (map fst d))"
| "py_contains s _ = Inl TypeError"

text \<open>\<^verbatim>\<open>x.append(v)\<close>: only a list has the method.\<close>

fun py_append :: "json \<Rightarrow> json \<Rightarrow> py_error + json" where
  "py_append (JArr xs) v = Inr (JArr (xs @ [v]))"
| "py_append _ v = Inl AttributeError"

section \<open>The ambiguity state (chain.py, lines 99 to 115)\<close>

definition FLAG_UNCLEAR :: string where
  "FLAG_UNCLEAR = ''Handwriting too unclear for safe AI interpretation''"

definition FLAG_NO_CANDIDATES :: string where
  "FLAG_NO_CANDIDATES = ''No medically safe correction candidates available''"

text \<open>\<^verbatim>\<open>any(len(a.get("options", [])) > 0 for a in ambiguities)\<close>, stopping at the first
  item that makes it true or raises.\<close>

fun any_options :: "json list \<Rightarrow> py_error + bool" where
  "any_options [] = Inr False"
| "any_options (a # as) =
     (case py_get a ''options'' (JArr []) of
        Inl e \<Rightarrow> Inl e
      | Inr opts \<Rightarrow>
          (case py_len opts of
             Inl e \<Rightarrow> Inl e
           | Inr n \<Rightarrow> if n > 0 then Inr True else any_options as))"

text \<open>\<^verbatim>\<open>len(ambiguities) > 0 and any(...)\<close>.\<close>

definition has_candidates :: "json \<Rightarrow> py_error + bool" where
  "has_candidates ambiguities =
     (case py_len ambiguities of
        Inl e \<Rightarrow> Inl e
      | Inr n \<Rightarrow>
          if n > 0 then
            (case py_iter ambiguities of Inl e \<Rightarrow> Inl e | Inr items \<Rightarrow> any_options items)
          else Inr False)"

text \<open>\<^verbatim>\<open>if flag not in audit["safety_flags"]: audit["safety_flags"].append(flag)\<close>.
  The list is changed in place, so the dict keeps the key where it was.\<close>

definition add_flag :: "pydict \<Rightarrow> string \<Rightarrow> py_error + pydict" where
  "add_flag audit flag =
     (case map_of audit ''safety_flags'' of
        None \<Rightarrow> Inl KeyError
      | Some fl \<Rightarrow>
          (case py_contains flag fl of
             Inl e \<Rightarrow> Inl e
           | Inr True \<Rightarrow> Inr audit
           | Inr False \<Rightarrow>
               (case py_append fl (JStr flag) of
                  Inl e \<Rightarrow> Inl e
                | Inr fl' \<Rightarrow> Inr (dict_set audit ''safety_flags'' fl'))))"

text \<open>The classification: the state and the audit dict as the step leaves it.  The audit
  is a dict here, since line 97 has just stored a key in it.\<close>

definition determine_ambiguity_state :: "json \<Rightarrow> pydict \<Rightarrow> py_error + (string \<times> pydict)" where
  "determine_ambiguity_state extraction audit =
     (case py_get extraction ''overall_confidence'' (JNum 1) of
        Inl e \<Rightarrow> Inl e
      | Inr confidence \<Rightarrow>
          (let ambiguities = dict_get_default audit ''ambiguities'' (JArr []) in
           case py_ge confidence FLOAT_0_7 of
             Inl e \<Rightarrow> Inl e
           | Inr True \<Rightarrow> Inr (''CLEAR'', audit)
           | Inr False \<Rightarrow>
               (case has_candidates ambiguities of
                  Inl e \<Rightarrow> Inl e
                | Inr True \<Rightarrow> Inr (''CLARIFIABLE'', audit)
                | Inr False \<Rightarrow>
                    (let audit1 =
                       (if ''safety_flags'' \<notin> set (map fst audit)
                        then dict_set audit ''safety_flags'' (JArr []) else audit)
                     in case add_flag audit1 FLAG_UNCLEAR of
                          Inl e \<Rightarrow> Inl e
                        | Inr audit2 \<Rightarrow>
                            (case add_flag audit2 FLAG_NO_CANDIDATES of
                               Inl e \<Rightarrow> Inl e
                             | Inr audit3 \<Rightarrow> Inr (''UNRESOLVABLE'', audit3))))))"

section \<open>Prompts (prompt.py)\<close>

text \<open>The prompt texts, byte for byte.  \<open>MODE_EXPLAIN_PROMPT\<close> and
  \<open>MODE_SCHEDULE_PROMPT\<close> name the two values of the dict \<^verbatim>\<open>MODE_PROMPTS\<close>.\<close>

definition VALIDATION_PROMPT :: string where
  \<open>VALIDATION_PROMPT =
     ''You are a medical document classifier.\<newline>'' @
     ''Your job is to determine if the uploaded image is a valid doctor's medical prescription.\<newline>'' @
     ''\<newline>'' @
     ''A valid prescription typically contains:\<newline>'' @
     ''- Medicine names and dosages\<newline>'' @
     ''- Signature or clinic stamp\<newline>'' @
     ''- Medical abbreviations (Rx, 1-0-1, etc.)\<newline>'' @
     ''\<newline>'' @
     ''NOT prescriptions:\<newline>'' @
     ''- Selfies, nature, or objects\<newline>'' @
     ''- Medicine strips/bottles\<newline>'' @
     ''- Lab reports or bills\<newline>'' @
     ''- Discharge summaries\<newline>'' @
     ''\<newline>'' @
     ''JSON SCHEMA:\<newline>'' @
     ''{\<newline>'' @
     ''  "is_prescription": true | false,\<newline>'' @
     ''  "confidence": number,\<newline>'' @
     ''  "reason": "short explanation"\<newline>'' @
     ''}\<newline>'' @
     ''RETURN ONLY JSON.\<newline>''\<close>

definition OCR_PROMPT :: string where
  \<open>OCR_PROMPT =
     ''You are a medical OCR specialist. \<newline>'' @
     ''Your ONLY job is to transcribe EVERY piece of text from the prescription image.\<newline>'' @
     ''Focus on medicine names, dosages (mg, ml), and frequencies.\<newline>'' @
     ''\<newline>'' @
     ''STRICT RULES:\<newline>'' @
     ''- Transcribe EXACTLY what is written.\<newline>'' @
     ''- If a word is illegible, use [UNCLEAR].\<newline>'' @
     ''- Do not structure yet, just give a raw text dump.\<newline>''\<close>

definition NORMALIZATION_PROMPT :: string where
  \<open>NORMALIZATION_PROMPT =
     ''You are a medical data architect.\<newline>'' @
     ''Convert the following raw OCR text from a prescription into a structured JSON object.\<newline>'' @
     ''\<newline>'' @
     ''JSON SCHEMA:\<newline>'' @
     ''{\<newline>'' @
     ''  "patient_name": "string | null",\<newline>'' @
     ''  "doctor_name": "string | null",\<newline>'' @
     ''  "date": "string | null",\<newline>'' @
     ''  "medicines": [\<newline>'' @
     ''    {\<newline>'' @
     ''      "name": "string",\<newline>'' @
     ''      "dosage": "string | null",\<newline>'' @
     ''      "frequency": "string | null",\<newline>'' @
     ''      "timing": ["morning", "afternoon", "night"],\<newline>'' @
     ''      "duration_days": "number | null",\<newline>'' @
     ''      "instructions": "string | null",\<newline>'' @
     ''      "confidence": "number (0-1)"\<newline>'' @
     ''    }\<newline>'' @
     ''  ],\<newline>'' @
     ''  "overall_confidence": "number (0-1)"\<newline>'' @
     ''}\<newline>'' @
     ''\<newline>'' @
     ''STRICT RULES:\<newline>'' @
     ''- "name": Use the full medicine name (e.g., "Amoxicillin 500mg").\<newline>'' @
     ''- "timing": Only include if explicitly written or implied (e.g., "1-0-1" -> ["morning", "night"]).\<newline>'' @
     ''- "confidence": Rate 0.0 to 1.0 based on how clear the OCR was.\<newline>'' @
     ''- If NO medicines are found, return an empty list for "medicines".\<newline>'' @
     ''- RETURN ONLY THE JSON OBJECT. NO MARKDOWN.\<newline>''\<close>

definition AUDIT_PROMPT :: string where
  \<open>AUDIT_PROMPT =
     ''You are a medical safety auditor. \<newline>'' @
     ''Review the original OCR text and the extracted JSON data to flag any risks or ambiguities.\<newline>'' @
     ''\<newline>'' @
     ''Check for:\<newline>'' @
     ''1. Low confidence extraction (< 0.7) in the JSON.\<newline>'' @
     ''2. [UNCLEAR] tags in the original OCR text.\<newline>'' @
     ''3. PHONETIC NOISE/GARBAGE TOKENS: If the OCR produced text that looks like random letters or phonetic nonsense (e.g., "Ry A tayp", "A Ehl 80", "A Ahm"), flag it as a HIGH ambiguity.\<newline>'' @
     ''4. Missing critical dosage info.\<newline>'' @
     ''5. Potentially dangerous instructions or conflicting timings.\<newline>'' @
     ''\<newline>'' @
     ''CRITICAL: If the OCR text is mostly garbage tokens or random characters, do NOT try to guess medicine names. Mark them as ambiguities with NO suggestions (options) if no safe alternatives exist.\<newline>'' @
     ''\<newline>'' @
     ''Return a JSON with:\<newline>'' @
     ''{\<newline>'' @
     ''  "ambiguities": [\<newline>'' @
     ''    {\<newline>'' @
     ''      "medicine_name": "The extracted name of the medicine this issue relates to",\<newline>'' @
     ''      "field": "name | dosage | frequency | instructions",\<newline>'' @
     ''      "issue": "Brief description of the handwriting or garbage token issue",\<newline>'' @
     ''      "options": ["Suggested correction 1", "Suggested correction 2"] \<newline>'' @
     ''    }\<newline>'' @
     ''  ],\<newline>'' @
     ''  "safety_flags": ["string"],\<newline>'' @
     ''  "is_safe_to_display": "boolean"\<newline>'' @
     ''}\<newline>''\<close>

definition SCHEDULE_FINAL_PROMPT :: string where
  \<open>SCHEDULE_FINAL_PROMPT =
     ''You are a medical scheduling specialist.\<newline>'' @
     ''Your goal is to convert the following verified prescription data into a structured daily schedule.\<newline>'' @
     ''\<newline>'' @
     ''RULES:\<newline>'' @
     ''1. Map "frequency" and "timing" into "morning", "afternoon", "night" booleans.\<newline>'' @
     ''2. If frequency is "Twice daily" -> morning: true, night: true.\<newline>'' @
     ''3. If timing is ["morning"] -> morning: true.\<newline>'' @
     ''4. "instructions": Include food relations (e.g., "After food") and specific notes.\<newline>'' @
     ''5. "duration_days": Must be a number.\<newline>'' @
     ''\<newline>'' @
     ''JSON SCHEMA:\<newline>'' @
     ''{\<newline>'' @
     ''  "schedule": [\<newline>'' @
     ''    {\<newline>'' @
     ''      "medicine": "string",\<newline>'' @
     ''      "morning": boolean,\<newline>'' @
     ''      "afternoon": boolean,\<newline>'' @
     ''      "night": boolean,\<newline>'' @
     ''      "dosage": "string",\<newline>'' @
     ''      "instructions": "string",\<newline>'' @
     ''      "duration_days": number\<newline>'' @
     ''    }\<newline>'' @
     ''  ]\<newline>'' @
     ''}\<newline>'' @
     ''\<newline>'' @
     ''STRICT: Return ONLY the JSON object. No prose. No markdown code blocks.\<newline>''\<close>

definition GLOBAL_DISCLAIMER :: string where
  \<open>GLOBAL_DISCLAIMER =
     ''\<newline>'' @
     ''\<newline>'' @
     ''**'' @ [CHR 0xE2] @ [CHR 0x9A] @ [CHR 0xA0] @ [CHR 0xEF] @ [CHR 0xB8] @ [CHR 0x8F] @ '' Disclaimer:** This is an AI-generated analysis of a prescription. It is not a medical diagnosis or professional advice. Always verify with your doctor or pharmacist before taking any medication.''\<close>

definition MODE_EXPLAIN_PROMPT :: string where
  \<open>MODE_EXPLAIN_PROMPT =
     ''You are a medical assistant.\<newline>'' @
     ''STRICT RULE: If no valid prescription data is provided in context, refuse to answer and ask the user to upload a prescription.\<newline>'' @
     ''Use the provided structured data to explain medicine purposes and usage.\<newline>'' @
     ''STRICT: Only refer to the medicines in the current prescription.\<newline>'' @
     ''DISCLAIMER: Always start with "Note: This is an AI explanation, not medical advice." ''\<close>

definition MODE_SCHEDULE_PROMPT :: string where
  \<open>MODE_SCHEDULE_PROMPT =
     ''You are a medication scheduling assistant.\<newline>'' @
     ''STRICT RULE: If no valid prescription data is provided in context, refuse to answer and ask the user to upload a prescription.\<newline>'' @
     ''Convert the prescription into a daily schedule.\<newline>'' @
     ''DISCLAIMER: "Note: Confirm this schedule with your pharmacist." ''\<close>

definition get_step_prompt :: "string \<Rightarrow> string" where
  "get_step_prompt step_name =
     (case map_of
        [(''validation'', VALIDATION_PROMPT),
         (''ocr'', OCR_PROMPT),
         (''normalize'', NORMALIZATION_PROMPT),
         (''audit'', AUDIT_PROMPT),
         (''schedule_final'', SCHEDULE_FINAL_PROMPT)] step_name of
        None \<Rightarrow> []
      | Some p \<Rightarrow> p)"

definition MODE_PROMPTS :: "(string \<times> string) list" where
  "MODE_PROMPTS =
     [(''Explain Prescription'', MODE_EXPLAIN_PROMPT),
      (''Create Schedule'', MODE_SCHEDULE_PROMPT)]"

definition get_mode_prompt :: "string \<Rightarrow> string" where
  "get_mode_prompt mode =
     (case map_of MODE_PROMPTS mode of
        None \<Rightarrow> ''You are a helpful medical assistant.''
      | Some p \<Rightarrow> p)"

section \<open>The streaming client (vision\_client.py)\<close>

datatype part = TextPart string | ImagePart string

datatype content = Parts "part list" | Plain string

record message =
  role :: string
  content :: content

record params =
  temperature :: rat
  max_tokens :: int
  top_p :: rat
  top_k :: int
  presence_penalty :: rat

text \<open>The values of the float literals \<^verbatim>\<open>0.1\<close> and \<^verbatim>\<open>0.9\<close>.\<close>

definition FLOAT_0_1 :: rat where
  "FLOAT_0_1 = 3602879701896397 / 36028797018963968"

definition FLOAT_0_9 :: rat where
  "FLOAT_0_9 = 8106479329266893 / 9007199254740992"

text \<open>The defaults of the parameters of \<^verbatim>\<open>stream\<close>.\<close>

definition default_params :: params where
  "default_params =
     \<lparr>temperature = FLOAT_0_7, max_tokens = 1024, top_p = FLOAT_0_9, top_k = 40,
      presence_penalty = 0\<rparr>"

record payload =
  model :: string
  messages :: "message list"
  sent_temperature :: rat
  sent_max_tokens :: int
  sent_top_p :: rat
  streaming :: bool

record request =
  url :: string
  headers :: "(string \<times> string) list"
  body :: payload
  timeout_seconds :: nat

record http_response =
  status_code :: int
  response_text :: string
  response_lines :: "string list"

text \<open>
  What the code takes from outside: the client's configuration, the library functions
  \<^verbatim>\<open>json.loads\<close> (\<open>None\<close> when it raises), \<^verbatim>\<open>json.dumps\<close>, \<^verbatim>\<open>str.strip\<close> and
  \<^verbatim>\<open>bytes.decode("utf-8")\<close> (\<open>None\<close> when it raises), the helper
  \<^verbatim>\<open>backend.utils.prepare_image_for_api\<close>, and the model endpoint.  The endpoint
  answers the request it is sent knowing every request sent before it, so it may answer
  the same request differently each time; \<open>Inl\<close> is \<^verbatim>\<open>requests.post\<close> raising.
\<close>

record 'img env =
  api_key :: string
  api_base :: string
  model_name :: string
  json_loads :: "string \<Rightarrow> json option"
  json_dumps :: "json \<Rightarrow> string"
  str_strip :: "string \<Rightarrow> string"
  utf8_decode :: "string \<Rightarrow> string option"
  prepare_image_for_api :: "'img \<Rightarrow> string"
  server :: "request list \<Rightarrow> py_error + http_response"

text \<open>\<^verbatim>\<open>str(n)\<close> of an int, for the f-string of the error message.\<close>

fun digits :: "nat \<Rightarrow> string" where
  "digits n =
     (if n < 10 then [char_of (48 + n)]
      else digits (n div 10) @ [char_of (48 + n mod 10)])"

definition str_int :: "int \<Rightarrow> string" where
  "str_int i = (if i < 0 then ''-'' @ digits (nat (- i)) else digits (nat i))"

text \<open>\<^verbatim>\<open>x[k]\<close> with a string key, and \<^verbatim>\<open>x[0]\<close>.  A dict decoded from JSON has no key
  \<^verbatim>\<open>0\<close>.  The first character of a string is only ever indexed by a string next, which
  raises whatever the character is.\<close>

fun py_getitem :: "json \<Rightarrow> string \<Rightarrow> py_error + json" where
  "py_getitem (JObj d) k = (case map_of d k of None \<Rightarrow> Inl KeyError | Some v \<Rightarrow> Inr v)"
| "py_getitem _ k = Inl TypeError"

fun py_getitem0 :: "json \<Rightarrow> py_error + json" where
  "py_getitem0 (JArr xs) = (case xs of [] \<Rightarrow> Inl IndexError | x # _ \<Rightarrow> Inr x)"
| "py_getitem0 (JStr s) = (case s of [] \<Rightarrow> Inl IndexError | c # _ \<Rightarrow> Inr (JStr [c]))"
| "py_getitem0 (JObj d) = Inl KeyError"
| "py_getitem0 _ = Inl TypeError"

text \<open>\<^verbatim>\<open>chunk["choices"][0]["delta"].get("content", "")\<close> (line 106).\<close>

definition delta_content :: "json \<Rightarrow> py_error + json" where
  "delta_content chunk =
     (case py_getitem chunk ''choices'' of
        Inl e \<Rightarrow> Inl e
      | Inr choices \<Rightarrow>
          (case py_getitem0 choices of
             Inl e \<Rightarrow> Inl e
           | Inr choice \<Rightarrow>
               (case py_getitem choice ''delta'' of
                  Inl e \<Rightarrow> Inl e
                | Inr delta \<Rightarrow> py_get delta ''content'' (JStr []))))"

text \<open>\<^verbatim>\<open>except (json.JSONDecodeError, KeyError, IndexError)\<close>: the errors of line 106 the
  handler catches (the decode error is the \<open>None\<close> of \<open>json_loads\<close>).\<close>

definition caught :: "py_error \<Rightarrow> bool" where
  "caught e = (e = KeyError \<or> e = IndexError)"

text \<open>
  The loop over \<^verbatim>\<open>response.iter_lines()\<close> (lines 87 to 111), run to its end: the
  values it yields, in order, and the exception that ends it, if one does.
\<close>

fun sse_events :: "('img, 'x) env_scheme \<Rightarrow> string list \<Rightarrow> json list \<times> py_error option" where
  "sse_events env [] = ([], None)"
| "sse_events env (line # rest) =
     (if line = [] then sse_events env rest
      else
        (case utf8_decode env line of
           None \<Rightarrow> ([], Some UnicodeDecodeError)
         | Some decoded_line \<Rightarrow>
             if \<not> prefix ''data: '' decoded_line then sse_events env rest
             else
               (let json_str = drop 6 decoded_line in
                if str_strip env json_str = ''[DONE]'' then ([], None)
                else
                  (case json_loads env json_str of
                     None \<Rightarrow> sse_events env rest
                   | Some chunk \<Rightarrow>
                       (case delta_content chunk of
                          Inl e \<Rightarrow> if caught e then sse_events env rest else ([], Some e)
                        | Inr content' \<Rightarrow>
                            if truthy content'
                            then (content' # fst (sse_events env rest), snd (sse_events env rest))
                            else sse_events env rest)))))"

definition build_request :: "('img, 'x) env_scheme \<Rightarrow> message list \<Rightarrow> params \<Rightarrow> request" where
  "build_request env msgs p =
     \<lparr>url = api_base env,
      headers =
        [(''Authorization'', ''Bearer '' @ api_key env),
         (''Content-Type'', ''application/json'')],
      body =
        \<lparr>model = model_name env, messages = msgs, sent_temperature = temperature p,
         sent_max_tokens = max_tokens p, sent_top_p = top_p p, streaming = True\<rparr>,
      timeout_seconds = 60\<rparr>"

text \<open>
  \<^verbatim>\<open>VisionLLMClient.stream\<close>, run to its end: what it yields and how it ends, and the
  requests sent so far.  The body of the generator starts at the first item asked for;
  nothing is yielded before the status check.
\<close>

definition stream ::
  "('img, 'x) env_scheme \<Rightarrow> request list \<Rightarrow> message list \<Rightarrow> params \<Rightarrow>
   (json list \<times> py_error option) \<times> request list" where
  "stream env sent msgs p =
     (let sent' = sent @ [build_request env msgs p] in
      case server env sent' of
        Inl e \<Rightarrow> (([], Some e), sent')
      | Inr response \<Rightarrow>
          if status_code response \<noteq> 200
          then (([], Some (ValueError
                  (''API Error '' @ str_int (status_code response) @ '': '' @
                   response_text response))), sent')
          else (sse_events env (response_lines response), sent'))"

section \<open>The reasoning pipeline (chain.py)\<close>

text \<open>The loop \<^verbatim>\<open>response += chunk\<close> over a stream (lines 216 to 219): adding anything
  but a string to a string raises \<^verbatim>\<open>TypeError\<close>; the exception that ends the stream
  passes through.\<close>

fun collect :: "string \<Rightarrow> json list \<Rightarrow> py_error option \<Rightarrow> py_error + string" where
  "collect response [] None = Inr response"
| "collect response [] (Some e) = Inl e"
| "collect response (JStr chunk # chunks) ending = collect (response @ chunk) chunks ending"
| "collect response (_ # chunks) ending = Inl TypeError"

text \<open>\<^verbatim>\<open>_call_non_streaming\<close>.  \<^verbatim>\<open>if image_url:\<close> is false for \<^verbatim>\<open>None\<close> and for the
  empty string.\<close>

definition call_non_streaming ::
  "('img, 'x) env_scheme \<Rightarrow> request list \<Rightarrow> string \<Rightarrow> string \<Rightarrow> string option \<Rightarrow>
   (py_error + string) \<times> request list" where
  "call_non_streaming env sent prompt user_query image_url =
     (let user_content =
        (case image_url of
           None \<Rightarrow> Plain user_query
         | Some u \<Rightarrow>
             if u \<noteq> [] then Parts [ImagePart u, TextPart user_query] else Plain user_query);
          msgs =
            [\<lparr>role = ''system'', content = Parts [TextPart prompt]\<rparr>,
             \<lparr>role = ''user'', content = user_content\<rparr>];
          run = stream env sent msgs (default_params\<lparr>temperature := FLOAT_0_1\<rparr>)
      in (collect [] (fst (fst run)) (snd (fst run)), snd run))"

text \<open>\<^verbatim>\<open>str.replace(old, new)\<close> for a non-empty \<open>old\<close> (both calls pass one): the
  occurrences from left to right, not overlapping.\<close>

function str_replace :: "string \<Rightarrow> string \<Rightarrow> string \<Rightarrow> string" where
  "str_replace old new [] = []"
| "str_replace old new (c # cs) =
     (if old \<noteq> [] \<and> prefix old (c # cs)
      then new @ str_replace old new (drop (length old) (c # cs))
      else c # str_replace old new cs)"
  by pat_completeness auto
termination
  by (relation "measure (\<lambda>(old, new, s). length s)") (auto simp: neq_Nil_conv)

text \<open>\<^verbatim>\<open>_clean_json_response\<close>.\<close>

definition clean_json_response :: "('img, 'x) env_scheme \<Rightarrow> string \<Rightarrow> string" where
  \<open>clean_json_response env txt =
     str_replace ''```'' [] (str_replace ''```json'' [] (str_strip env txt))\<close>

text \<open>\<^verbatim>\<open>try: x = json.loads(self._clean_json_response(s))\<close> with its bare
  \<^verbatim>\<open>except\<close>: the fallback on any failure to decode.\<close>

definition loads_or :: "('img, 'x) env_scheme \<Rightarrow> string \<Rightarrow> json \<Rightarrow> json" where
  "loads_or env s fallback =
     (case json_loads env (clean_json_response env s) of None \<Rightarrow> fallback | Some v \<Rightarrow> v)"

definition validation_fallback :: json where
  "validation_fallback =
     JObj [(''is_prescription'', JBool False), (''confidence'', JNum 0),
           (''reason'', JStr ''Classification failed'')]"

definition extraction_fallback :: json where
  "extraction_fallback = JObj [(''medicines'', JArr []), (''overall_confidence'', JNum 0)]"

definition audit_fallback :: json where
  "audit_fallback =
     JObj [(''ambiguities'', JArr []), (''safety_flags'', JArr []),
           (''is_safe_to_display'', JBool False)]"

text \<open>The condition of the gate (line 60):
  \<^verbatim>\<open>not validation.get("is_prescription") or validation.get("confidence", 0) < 0.7\<close>.
  The comparison is not evaluated when the first operand is already true.\<close>

definition gate_blocks :: "json \<Rightarrow> py_error + bool" where
  "gate_blocks validation =
     (case py_get validation ''is_prescription'' JNull of
        Inl e \<Rightarrow> Inl e
      | Inr is_prescription \<Rightarrow>
          if \<not> truthy is_prescription then Inr True
          else
            (case py_get validation ''confidence'' (JNum 0) of
               Inl e \<Rightarrow> Inl e
             | Inr confidence \<Rightarrow> py_lt confidence FLOAT_0_7))"

text \<open>The dict returned at the gate (lines 61 to 66).\<close>

definition rejection :: "json \<Rightarrow> json" where
  "rejection validation =
     JObj [(''validation'', validation),
           (''extraction'', JObj [(''medicines'', JArr []), (''overall_confidence'', JNum 0)]),
           (''audit'',
              JObj [(''ambiguities'', JArr []),
                    (''safety_flags'', JArr [JStr ''Image rejected by safety gate.'']),
                    (''is_safe_to_display'', JBool False)]),
           (''raw_ocr'', JStr [])]"

text \<open>The calls of the four stages, each with what it decodes.\<close>

definition step_validation ::
  "('img, 'x) env_scheme \<Rightarrow> request list \<Rightarrow> string \<Rightarrow> (py_error + json) \<times> request list" where
  "step_validation env sent image_data =
     (let r = call_non_streaming env sent (get_step_prompt ''validation'')
                ''Is this image a doctor's medical prescription?'' (Some image_data)
      in (case fst r of
            Inl e \<Rightarrow> Inl e
          | Inr validation_json_str \<Rightarrow> Inr (loads_or env validation_json_str validation_fallback),
          snd r))"

definition step_ocr ::
  "('img, 'x) env_scheme \<Rightarrow> request list \<Rightarrow> string \<Rightarrow> (py_error + string) \<times> request list" where
  "step_ocr env sent image_data =
     call_non_streaming env sent (get_step_prompt ''ocr'')
       ''Please extract all text from this prescription.'' (Some image_data)"

definition step_normalize ::
  "('img, 'x) env_scheme \<Rightarrow> request list \<Rightarrow> string \<Rightarrow> (py_error + json) \<times> request list" where
  "step_normalize env sent raw_ocr =
     (let r = call_non_streaming env sent (get_step_prompt ''normalize'')
                (''Convert this OCR text into the medical JSON schema:\<newline>\<newline>'' @ raw_ocr)
                None
      in (case fst r of
            Inl e \<Rightarrow> Inl e
          | Inr normalization_json_str \<Rightarrow>
              Inr (loads_or env normalization_json_str extraction_fallback),
          snd r))"

definition step_audit ::
  "('img, 'x) env_scheme \<Rightarrow> request list \<Rightarrow> string \<Rightarrow> json \<Rightarrow>
   (py_error + json) \<times> request list" where
  "step_audit env sent raw_ocr extraction =
     (let r = call_non_streaming env sent (get_step_prompt ''audit'')
                (''Original OCR Text:\<newline>'' @ raw_ocr @
                 ''\<newline>\<newline>Extracted JSON:\<newline>'' @ json_dumps env extraction @
                 ''\<newline>\<newline>Audit for safety and ambiguity.'')
                None
      in (case fst r of
            Inl e \<Rightarrow> Inl e
          | Inr audit_json_str \<Rightarrow> Inr (loads_or env audit_json_str audit_fallback),
          snd r))"

text \<open>Lines 97 to 123: \<^verbatim>\<open>audit["validation"] = validation\<close> (only a dict among the
  decoded values takes a string key), the classification, and the dict returned.\<close>

definition classify_and_return :: "json \<Rightarrow> json \<Rightarrow> json \<Rightarrow> string \<Rightarrow> py_error + json" where
  "classify_and_return validation extraction audit raw_ocr =
     (case audit of
        JObj a \<Rightarrow>
          (case determine_ambiguity_state extraction (dict_set a ''validation'' validation) of
             Inl e \<Rightarrow> Inl e
           | Inr st \<Rightarrow>
               Inr (JObj [(''validation'', validation),
                          (''extraction'', extraction),
                          (''audit'', JObj (snd st)),
                          (''raw_ocr'', JStr raw_ocr),
                          (''ambiguity_state'', JStr (fst st))]))
      | _ \<Rightarrow> Inl TypeError)"

text \<open>Lines 68 to 123: the pipeline past the gate.\<close>

definition past_gate ::
  "('img, 'x) env_scheme \<Rightarrow> request list \<Rightarrow> string \<Rightarrow> json \<Rightarrow> (py_error + json) \<times> request list" where
  "past_gate env sent image_data validation =
     (let r1 = step_ocr env sent image_data in
      case fst r1 of
        Inl e \<Rightarrow> (Inl e, snd r1)
      | Inr raw_ocr \<Rightarrow>
          (let r2 = step_normalize env (snd r1) raw_ocr in
           case fst r2 of
             Inl e \<Rightarrow> (Inl e, snd r2)
           | Inr extraction \<Rightarrow>
               (let r3 = step_audit env (snd r2) raw_ocr extraction in
                case fst r3 of
                  Inl e \<Rightarrow> (Inl e, snd r3)
                | Inr audit \<Rightarrow>
                    (classify_and_return validation extraction audit raw_ocr, snd r3))))"

text \<open>\<^verbatim>\<open>VisionChain.analyze_prescription\<close>: the result or the exception, and the requests
  sent.\<close>

definition analyze_prescription ::
  "('img, 'x) env_scheme \<Rightarrow> request list \<Rightarrow> 'img \<Rightarrow> (py_error + json) \<times> request list" where
  "analyze_prescription env sent img =
     (let image_data = prepare_image_for_api env img;
          r0 = step_validation env sent image_data
      in case fst r0 of
           Inl e \<Rightarrow> (Inl e, snd r0)
         | Inr validation \<Rightarrow>
             (case gate_blocks validation of
                Inl e \<Rightarrow> (Inl e, snd r0)
              | Inr True \<Rightarrow> (Inr (rejection validation), snd r0)
              | Inr False \<Rightarrow> past_gate env (snd r0) image_data validation))"

section \<open>The chat turn (chain.py, stream\_with\_mode)\<close>

datatype chat_message = HumanMessage string | AIMessage string | SystemMessage string

text \<open>\<^verbatim>\<open>_format_message_for_api\<close>.\<close>

fun format_message_for_api :: "chat_message \<Rightarrow> message" where
  "format_message_for_api (SystemMessage c) = \<lparr>role = ''system'', content = Parts [TextPart c]\<rparr>"
| "format_message_for_api (HumanMessage c) = \<lparr>role = ''user'', content = Parts [TextPart c]\<rparr>"
| "format_message_for_api (AIMessage c) = \<lparr>role = ''assistant'', content = Parts [TextPart c]\<rparr>"

text \<open>The text line 155 adds to the system prompt.\<close>

definition SAFETY_RULE :: string where
  "SAFETY_RULE =
     ''\<newline>\<newline>SAFETY RULE: The current prescription handwriting is UNRESOLVABLE. '' @
     ''Do NOT infer or suggest medicine names unless the user explicitly provides them in this chat. '' @
     ''Avoid all guesses.''"

text \<open>The arguments of one call, and what the chain object holds across calls.\<close>

record 'img turn =
  turn_image :: 'img
  user_query :: string
  mode :: string
  extraction_context :: json
  ambiguity_state :: string
  model_params :: params

record session =
  memory :: "chat_message list"
  prescription_id :: "string option"
  chat_rows :: "(string \<times> string \<times> string) list"
  sent_requests :: "request list"

text \<open>Lines 151 to 160: the text of the system message.\<close>

definition combined_system :: "('img, 'x) env_scheme \<Rightarrow> ('img, 'y) turn_scheme \<Rightarrow> string" where
  "combined_system env t =
     (let system_prompt = get_mode_prompt (mode t);
          system_prompt' =
            (if ambiguity_state t = ''UNRESOLVABLE'' then system_prompt @ SAFETY_RULE
             else system_prompt);
          context_msg =
            ''Context: The following verified data was extracted from the prescription: '' @
            json_dumps env (extraction_context t)
      in system_prompt' @ ''\<newline>\<newline>'' @ context_msg)"

text \<open>Lines 162 to 178: the messages sent, built from the history before the new turn is
  added to it.\<close>

definition turn_messages ::
  "('img, 'x) env_scheme \<Rightarrow> chat_message list \<Rightarrow> ('img, 'y) turn_scheme \<Rightarrow> message list" where
  "turn_messages env history t =
     [\<lparr>role = ''system'', content = Parts [TextPart (combined_system env t)]\<rparr>] @
     map format_message_for_api history @
     [\<lparr>role = ''user'',
       content = Parts [ImagePart (prepare_image_for_api env (turn_image t)),
                        TextPart (user_query t)]\<rparr>]"

text \<open>Modelled from the spec: \<^verbatim>\<open>db.chat.save_chat_message\<close> is not under src/; the spec
  describes the collaborator as a conversation store offering append of chat turns keyed
  by a session identifier, so saving appends one row.\<close>

definition save_chat_message ::
  "(string \<times> string \<times> string) list \<Rightarrow> string \<Rightarrow> string \<Rightarrow> string \<Rightarrow>
   (string \<times> string \<times> string) list" where
  "save_chat_message rows pid who txt = rows @ [(pid, who, txt)]"

text \<open>\<^verbatim>\<open>if self.prescription_id: save_chat_message(self.prescription_id, who, txt)\<close>.\<close>

definition save_if_active :: "session \<Rightarrow> string \<Rightarrow> string \<Rightarrow> session" where
  "save_if_active s who txt =
     (case prescription_id s of
        None \<Rightarrow> s
      | Some pid \<Rightarrow>
          if pid \<noteq> [] then s\<lparr>chat_rows := save_chat_message (chat_rows s) pid who txt\<rparr>
          else s)"

text \<open>
  \<^verbatim>\<open>stream_with_mode\<close> is a generator: its body runs only while the caller asks for the
  next item, and stops at each \<^verbatim>\<open>yield\<close>.  A generator is at one of four places: not
  yet started; stopped at \<^verbatim>\<open>yield chunk\<close> (line 188), holding what is left of the client's
  stream, how that stream ends, and \<^verbatim>\<open>full_response\<close>; stopped at
  \<^verbatim>\<open>yield GLOBAL_DISCLAIMER\<close> (line 192), holding \<^verbatim>\<open>response_with_disclaimer\<close>; done.
\<close>

datatype gen =
    Created
  | AtChunk "json list" "py_error option" string
  | AtDisclaimer string
  | Closed

datatype event = Yield string | StopIteration | Raise py_error

text \<open>From the head of the \<^verbatim>\<open>for\<close> loop (line 186) to the next \<^verbatim>\<open>yield\<close> or raise.
  \<^verbatim>\<open>full_response += chunk\<close> comes before the \<^verbatim>\<open>yield\<close> and raises on anything but a
  string.\<close>

fun loop_step :: "session \<Rightarrow> json list \<Rightarrow> py_error option \<Rightarrow> string \<Rightarrow> event \<times> session \<times> gen" where
  "loop_step s [] None full_response =
     (Yield GLOBAL_DISCLAIMER, s, AtDisclaimer (full_response @ GLOBAL_DISCLAIMER))"
| "loop_step s [] (Some e) full_response = (Raise e, s, Closed)"
| "loop_step s (JStr chunk # rest) ending full_response =
     (Yield chunk, s, AtChunk rest ending (full_response @ chunk))"
| "loop_step s (_ # rest) ending full_response = (Raise TypeError, s, Closed)"

text \<open>One \<^verbatim>\<open>next()\<close> on the generator of \<^verbatim>\<open>stream_with_mode\<close>.\<close>

fun stream_with_mode ::
  "('img, 'x) env_scheme \<Rightarrow> ('img, 'y) turn_scheme \<Rightarrow> session \<times> gen \<Rightarrow> event \<times> session \<times> gen" where
  "stream_with_mode env t (s, Created) =
     (let msgs = turn_messages env (memory s) t;
          s1 = s\<lparr>memory := memory s @ [HumanMessage (user_query t)]\<rparr>;
          s2 = save_if_active s1 ''user'' (user_query t);
          run = stream env (sent_requests s2) msgs (model_params t)
      in loop_step (s2\<lparr>sent_requests := snd run\<rparr>) (fst (fst run)) (snd (fst run)) [])"
| "stream_with_mode env t (s, AtChunk rest ending full_response) =
     loop_step s rest ending full_response"
| "stream_with_mode env t (s, AtDisclaimer response_with_disclaimer) =
     (StopIteration,
      save_if_active (s\<lparr>memory := memory s @ [AIMessage response_with_disclaimer]\<rparr>)
        ''assistant'' response_with_disclaimer,
      Closed)"
| "stream_with_mode env t (s, Closed) = (StopIteration, s, Closed)"

text \<open>The caller: ask for up to \<open>n\<close> items, stopping at the first answer that is not an
  item.  A caller that stops asking leaves the generator where it is; nothing in its body
  (no \<^verbatim>\<open>try\<close>, no \<^verbatim>\<open>finally\<close>) runs when it is closed.\<close>

fun pull ::
  "nat \<Rightarrow> (session \<times> gen \<Rightarrow> event \<times> session \<times> gen) \<Rightarrow> session \<times> gen \<Rightarrow>
   event list \<times> session \<times> gen" where
  "pull 0 nx sg = ([], sg)"
| "pull (Suc n) nx sg =
     (case fst (nx sg) of
        Yield y \<Rightarrow> (Yield y # fst (pull n nx (snd (nx sg))), snd (pull n nx (snd (nx sg))))
      | ev \<Rightarrow> ([ev], snd (nx sg)))"

fun is_yield :: "event \<Rightarrow> bool" where
  "is_yield (Yield y) = True"
| "is_yield _ = False"

section \<open>The spec's words\<close>

text \<open>An ambiguity as the data model has it: an object whose \<open>options\<close>, when present,
  is a list; and its options.\<close>

definition wf_ambiguity :: "json \<Rightarrow> bool" where
  "wf_ambiguity a =
     (case a of
        JObj d \<Rightarrow>
          (case map_of d ''options'' of None \<Rightarrow> True | Some (JArr os) \<Rightarrow> True | Some _ \<Rightarrow> False)
      | _ \<Rightarrow> False)"

definition options_of :: "json \<Rightarrow> json list" where
  "options_of a =
     (case a of
        JObj d \<Rightarrow> (case map_of d ''options'' of Some (JArr os) \<Rightarrow> os | _ \<Rightarrow> [])
      | _ \<Rightarrow> [])"

text \<open>"Inserted if not already present".\<close>

definition insert_flag :: "string \<Rightarrow> json list \<Rightarrow> json list" where
  "insert_flag f fs = (if JStr f \<in> set fs then fs else fs @ [JStr f])"

text \<open>The safety flags of an audit dict, when they are a list.\<close>

definition flag_list :: "pydict \<Rightarrow> json list" where
  "flag_list audit = (case map_of audit ''safety_flags'' of Some (JArr fs) \<Rightarrow> fs | _ \<Rightarrow> [])"

definition has_flag :: "pydict \<Rightarrow> string \<Rightarrow> bool" where
  "has_flag audit f =
     (case map_of audit ''safety_flags'' of
        None \<Rightarrow> False
      | Some fl \<Rightarrow> py_contains f fl = Inr True)"

text \<open>The prompt a request carries as its system message, which tells the stage it
  belongs to.\<close>

definition system_prompt_of :: "request \<Rightarrow> string option" where
  "system_prompt_of r =
     (case messages (body r) of
        [] \<Rightarrow> None
      | m # _ \<Rightarrow>
          if role m = ''system''
          then (case content m of Parts [TextPart p] \<Rightarrow> Some p | _ \<Rightarrow> None)
          else None)"

section \<open>A concrete world\<close>

text \<open>
  An endpoint that answers the \<open>k\<close>-th request with the \<open>k\<close>-th of a list of responses,
  and library functions that are right on the texts used below: stripping and decoding
  of ASCII text, and \<^verbatim>\<open>json.loads\<close> and \<^verbatim>\<open>json.dumps\<close> as tables.
\<close>

definition json_quote :: string where
  "json_quote = [CHR 0x22]"

definition json_escape :: "string \<Rightarrow> string" where
  "json_escape s =
     json_quote @
     concat (map (\<lambda>c. if c = CHR 0x22 \<or> c = CHR 0x5C then [CHR 0x5C, c] else [c]) s) @
     json_quote"

definition chunk_text :: "string \<Rightarrow> string" where
  \<open>chunk_text s = ''{"choices":[{"delta":{"content":'' @ json_escape s @ ''}}]}''\<close>

definition chunk_json :: "string \<Rightarrow> json" where
  "chunk_json s = JObj [(''choices'', JArr [JObj [(''delta'', JObj [(''content'', JStr s)])]])]"

definition sse_body :: "string list \<Rightarrow> string list" where
  "sse_body frags =
     concat (map (\<lambda>s. [''data: '' @ chunk_text s, []]) frags) @ [''data: [DONE]'', []]"

definition ok_response :: "string list \<Rightarrow> http_response" where
  "ok_response frags =
     \<lparr>status_code = 200, response_text = [], response_lines = sse_body frags\<rparr>"

definition REPLY_VALID :: string where
  \<open>REPLY_VALID = ''{"is_prescription": true, "confidence": 0.7, "reason": "handwritten Rx"}''\<close>

definition REPLY_DOUBT :: string where
  \<open>REPLY_DOUBT = ''{"is_prescription": true, "confidence": 0.69, "reason": "blurred"}''\<close>

definition REPLY_OCR :: string where
  "REPLY_OCR = ''Amox 500mg 1-0-1 x5days''"

definition REPLY_EXTRACTION :: string where
  \<open>REPLY_EXTRACTION = ''{"medicines": [{"name": "Amox 500mg"}]}''\<close>

definition REPLY_AUDIT :: string where
  \<open>REPLY_AUDIT = ''{"ambiguities": [{"medicine_name": "Amox 500mg", "field": "name", "issue": "abbreviated", "options": []}], "safety_flags": [], "is_safe_to_display": true}''\<close>

text \<open>The value of the float that \<^verbatim>\<open>json.loads\<close> makes of the text \<^verbatim>\<open>0.69\<close>.\<close>

definition FLOAT_0_69 :: rat where
  "FLOAT_0_69 = 1553741871442821 / 2251799813685248"

definition valid_json :: pydict where
  "valid_json =
     [(''is_prescription'', JBool True), (''confidence'', JNum FLOAT_0_7),
      (''reason'', JStr ''handwritten Rx'')]"

definition doubt_json :: pydict where
  "doubt_json =
     [(''is_prescription'', JBool True), (''confidence'', JNum FLOAT_0_69),
      (''reason'', JStr ''blurred'')]"

definition extraction_json :: pydict where
  "extraction_json = [(''medicines'', JArr [JObj [(''name'', JStr ''Amox 500mg'')]])]"

definition audit_json :: pydict where
  "audit_json =
     [(''ambiguities'',
         JArr [JObj [(''medicine_name'', JStr ''Amox 500mg''), (''field'', JStr ''name''),
                     (''issue'', JStr ''abbreviated''), (''options'', JArr [])]]),
      (''safety_flags'', JArr []),
      (''is_safe_to_display'', JBool True)]"

definition demo_loads :: "string \<Rightarrow> json option" where
  "demo_loads s =
     map_of
       [(REPLY_VALID, JObj valid_json),
        (REPLY_DOUBT, JObj doubt_json),
        (REPLY_EXTRACTION, JObj extraction_json),
        (REPLY_AUDIT, JObj audit_json),
        (''null'', JNull),
        (chunk_text REPLY_VALID, chunk_json REPLY_VALID),
        (chunk_text REPLY_DOUBT, chunk_json REPLY_DOUBT),
        (chunk_text REPLY_OCR, chunk_json REPLY_OCR),
        (chunk_text REPLY_EXTRACTION, chunk_json REPLY_EXTRACTION),
        (chunk_text REPLY_AUDIT, chunk_json REPLY_AUDIT),
        (chunk_text ''Take one '', chunk_json ''Take one ''),
        (chunk_text ''tablet.'', chunk_json ''tablet.'')] s"

definition demo_dumps :: "json \<Rightarrow> string" where
  "demo_dumps j =
     (case map_of [(JObj [], ''{}''), (JObj extraction_json, REPLY_EXTRACTION)] j of
        None \<Rightarrow> ''null''
      | Some s \<Rightarrow> s)"

definition ascii_space :: "char \<Rightarrow> bool" where
  "ascii_space c = (c \<in> set [CHR 0x20, CHR 0x09, CHR 0x0A, CHR 0x0B, CHR 0x0C, CHR 0x0D,
                              CHR 0x1C, CHR 0x1D, CHR 0x1E, CHR 0x1F])"

definition ascii_strip :: "string \<Rightarrow> string" where
  "ascii_strip s = rev (dropWhile ascii_space (rev (dropWhile ascii_space s)))"

definition ascii_decode :: "string \<Rightarrow> string option" where
  "ascii_decode s = (if list_all (\<lambda>c. (of_char c :: nat) < 128) s then Some s else None)"

definition scripted_server :: "http_response list \<Rightarrow> request list \<Rightarrow> py_error + http_response" where
  "scripted_server rs sent =
     (case drop (length sent - 1) rs of [] \<Rightarrow> Inl RequestException | r # _ \<Rightarrow> Inr r)"

definition demo_env :: "http_response list \<Rightarrow> unit env" where
  "demo_env rs =
     \<lparr>api_key = ''secret'',
      api_base = ''https://platform.qubrid.com/api/v1/qubridai/multimodal/chat'',
      model_name = ''Qwen/Qwen3-VL-30B-A3B-Instruct'',
      json_loads = demo_loads,
      json_dumps = demo_dumps,
      str_strip = ascii_strip,
      utf8_decode = ascii_decode,
      prepare_image_for_api = (\<lambda>u. ''data:image/jpeg;base64,AAAA''),
      server = scripted_server rs\<rparr>"

definition demo_turn :: "string \<Rightarrow> string \<Rightarrow> unit turn" where
  "demo_turn m a =
     \<lparr>turn_image = (), user_query = ''What is this medicine for?'', mode = m,
      extraction_context = JObj [], ambiguity_state = a, model_params = default_params\<rparr>"

definition demo_replies :: "http_response list" where
  "demo_replies =
     [ok_response [REPLY_VALID], ok_response [REPLY_OCR], ok_response [REPLY_EXTRACTION],
      ok_response [REPLY_AUDIT]]"

definition demo_session :: session where
  "demo_session =
     \<lparr>memory = [], prescription_id = Some ''rx-1'', chat_rows = [], sent_requests = []\<rparr>"

section \<open>Dicts\<close>

lemma map_of_dict_set: "map_of (dict_set d k v) = (map_of d)(k \<mapsto> v)"
  by (simp add: dict_set_def update_conv')

lemma dict_set_twice: "dict_set (dict_set d k v) k w = dict_set d k w"
  by (simp add: dict_set_def)

lemma key_present: "(k \<in> fst ` set d) = (map_of d k \<noteq> None)"
  by (simp add: map_of_eq_None_iff)

section \<open>The classification\<close>

lemma any_options_wf:
  "list_all wf_ambiguity ambs \<Longrightarrow>
   any_options ambs = Inr (list_ex (\<lambda>a. options_of a \<noteq> []) ambs)"
  by (induction ambs)
     (auto simp: wf_ambiguity_def options_of_def dict_get_default_def
           split: json.splits option.splits)

lemma has_candidates_wf:
  "list_all wf_ambiguity ambs \<Longrightarrow>
   has_candidates (JArr ambs) = Inr (ambs \<noteq> [] \<and> list_ex (\<lambda>a. options_of a \<noteq> []) ambs)"
  by (cases ambs) (simp_all add: has_candidates_def any_options_wf del: any_options.simps)

lemma add_flag_list:
  "map_of audit ''safety_flags'' = Some (JArr flags) \<Longrightarrow>
   add_flag audit f = Inr (dict_set audit ''safety_flags'' (JArr (insert_flag f flags)))"
  by (simp add: add_flag_def insert_flag_def dict_set_def update_triv)

text \<open>
  C3.  For a numeric \<open>overall_confidence\<close> and a list of ambiguities of the data model
  (objects whose options, when present, are a list), with safety flags that are a list or
  absent, the classification returns: \<open>CLEAR\<close> when the confidence is at least the
  float 0.70;
  otherwise \<open>CLARIFIABLE\<close> when the list is not empty and some ambiguity has a non-empty
  options list; otherwise \<open>UNRESOLVABLE\<close>, and then the safety flags are the old ones
  with each of the two fixed strings inserted if it was not there.  The audit dict is
  otherwise unchanged.
\<close>

theorem classification_cases:
  assumes conf: "map_of extraction ''overall_confidence'' = Some (JNum c)"
    and ambs: "dict_get_default audit ''ambiguities'' (JArr []) = JArr ambs"
    and wf: "list_all wf_ambiguity ambs"
    and flags: "dict_get_default audit ''safety_flags'' (JArr []) = JArr flags"
  shows "determine_ambiguity_state (JObj extraction) audit = Inr
     (if c \<ge> FLOAT_0_7 then (''CLEAR'', audit)
      else if ambs \<noteq> [] \<and> list_ex (\<lambda>a. options_of a \<noteq> []) ambs then (''CLARIFIABLE'', audit)
      else (''UNRESOLVABLE'',
            dict_set audit ''safety_flags''
              (JArr (insert_flag FLAG_NO_CANDIDATES (insert_flag FLAG_UNCLEAR flags)))))"
proof (cases "map_of audit ''safety_flags''")
  case None
  then have absent: "''safety_flags'' \<notin> set (map fst audit)"
    by (simp add: map_of_eq_None_iff)
  from None flags have "flags = []"
    by (simp add: dict_get_default_def)
  with absent conf ambs wf show ?thesis
    by (simp add: determine_ambiguity_state_def dict_get_default_def has_candidates_wf
        add_flag_list map_of_dict_set dict_set_twice)
next
  case (Some fl)
  with flags have fl: "map_of audit ''safety_flags'' = Some (JArr flags)"
    by (simp add: dict_get_default_def)
  then have present: "''safety_flags'' \<in> set (map fst audit)"
    by (simp add: key_present)
  with fl conf ambs wf show ?thesis
    by (simp add: determine_ambiguity_state_def dict_get_default_def has_candidates_wf
        add_flag_list map_of_dict_set dict_set_twice)
qed

text \<open>The three cases at concrete inputs: confidence 0.875; confidence 0.5 with one
  ambiguity offering two options; confidence 0.5 with no ambiguity.\<close>

theorem classification_cases_witness:
  "determine_ambiguity_state (JObj [(''overall_confidence'', JNum (7 / 8))])
     [(''ambiguities'', JArr []), (''safety_flags'', JArr [])] =
   Inr (''CLEAR'', [(''ambiguities'', JArr []), (''safety_flags'', JArr [])])
   \<and>
   determine_ambiguity_state (JObj [(''overall_confidence'', JNum (1 / 2))])
     [(''ambiguities'', JArr [JObj [(''options'', JArr [JStr ''A'', JStr ''B''])]]),
      (''safety_flags'', JArr [])] =
   Inr (''CLARIFIABLE'',
        [(''ambiguities'', JArr [JObj [(''options'', JArr [JStr ''A'', JStr ''B''])]]),
         (''safety_flags'', JArr [])])
   \<and>
   determine_ambiguity_state (JObj [(''overall_confidence'', JNum (1 / 2))])
     [(''ambiguities'', JArr []), (''safety_flags'', JArr [])] =
   Inr (''UNRESOLVABLE'',
        [(''ambiguities'', JArr []),
         (''safety_flags'',
            JArr [JStr ''Handwriting too unclear for safe AI interpretation'',
                  JStr ''No medically safe correction candidates available''])])"
proof -
  have a: "determine_ambiguity_state (JObj [(''overall_confidence'', JNum (7 / 8))])
     [(''ambiguities'', JArr []), (''safety_flags'', JArr [])] =
   Inr (''CLEAR'', [(''ambiguities'', JArr []), (''safety_flags'', JArr [])])"
    using classification_cases[of "[(''overall_confidence'', JNum (7 / 8))]" "7 / 8"
        "[(''ambiguities'', JArr []), (''safety_flags'', JArr [])]" "[]" "[]"]
    by (simp add: dict_get_default_def FLOAT_0_7_def)
  have b: "determine_ambiguity_state (JObj [(''overall_confidence'', JNum (1 / 2))])
     [(''ambiguities'', JArr [JObj [(''options'', JArr [JStr ''A'', JStr ''B''])]]),
      (''safety_flags'', JArr [])] =
   Inr (''CLARIFIABLE'',
        [(''ambiguities'', JArr [JObj [(''options'', JArr [JStr ''A'', JStr ''B''])]]),
         (''safety_flags'', JArr [])])"
    using classification_cases[of "[(''overall_confidence'', JNum (1 / 2))]" "1 / 2"
        "[(''ambiguities'', JArr [JObj [(''options'', JArr [JStr ''A'', JStr ''B''])]]),
          (''safety_flags'', JArr [])]"
        "[JObj [(''options'', JArr [JStr ''A'', JStr ''B''])]]" "[]"]
    by (simp add: dict_get_default_def wf_ambiguity_def options_of_def FLOAT_0_7_def)
  have c: "determine_ambiguity_state (JObj [(''overall_confidence'', JNum (1 / 2))])
     [(''ambiguities'', JArr []), (''safety_flags'', JArr [])] =
   Inr (''UNRESOLVABLE'',
        [(''ambiguities'', JArr []),
         (''safety_flags'',
            JArr [JStr ''Handwriting too unclear for safe AI interpretation'',
                  JStr ''No medically safe correction candidates available''])])"
    using classification_cases[of "[(''overall_confidence'', JNum (1 / 2))]" "1 / 2"
        "[(''ambiguities'', JArr []), (''safety_flags'', JArr [])]" "[]" "[]"]
    by (simp add: dict_get_default_def insert_flag_def dict_set_def FLAG_UNCLEAR_def
        FLAG_NO_CANDIDATES_def FLOAT_0_7_def)
  from a b c show ?thesis by blast
qed

section \<open>Classifying twice\<close>

lemma add_flag_cases:
  assumes "add_flag a f = Inr a'"
  shows "(a' = a \<and> has_flag a f) \<or>
         (\<exists>xs. map_of a ''safety_flags'' = Some (JArr xs) \<and> JStr f \<notin> set xs \<and>
               a' = dict_set a ''safety_flags'' (JArr (xs @ [JStr f])))"
proof (cases "map_of a ''safety_flags''")
  case None
  with assms show ?thesis by (simp add: add_flag_def)
next
  case (Some fl)
  with assms show ?thesis
    by (cases fl) (auto simp: add_flag_def has_flag_def split: if_splits bool.splits)
qed

lemma add_flag_has:
  assumes "add_flag a f = Inr a'"
  shows "has_flag a' f"
  using add_flag_cases[OF assms] by (auto simp: has_flag_def map_of_dict_set)

lemma add_flag_keeps:
  assumes "add_flag a f = Inr a'" and "has_flag a g"
  shows "has_flag a' g"
  using add_flag_cases[OF assms(1)] assms(2) by (auto simp: has_flag_def map_of_dict_set)

lemma add_flag_other_keys:
  assumes "add_flag a f = Inr a'" and "k \<noteq> ''safety_flags''"
  shows "map_of a' k = map_of a k"
  using add_flag_cases[OF assms(1)] assms(2) by (auto simp: map_of_dict_set)

lemma add_flag_keys:
  assumes "add_flag a f = Inr a'"
  shows "''safety_flags'' \<in> set (map fst a')"
proof -
  from add_flag_has[OF assms] have "map_of a' ''safety_flags'' \<noteq> None"
    by (auto simp: has_flag_def split: option.splits)
  then show ?thesis by (simp add: key_present)
qed

lemma add_flag_fixed: "has_flag a f \<Longrightarrow> add_flag a f = Inr a"
  by (auto simp: has_flag_def add_flag_def split: option.splits)

lemma add_flag_count:
  assumes "add_flag a f = Inr a'"
  shows "count_list (flag_list a') (JStr g) \<le> max 1 (count_list (flag_list a) (JStr g))"
  using add_flag_cases[OF assms]
  by (auto simp: flag_list_def map_of_dict_set count_list_0_iff)

text \<open>What a run of the classification was: it left the audit alone, or it was the
  \<open>UNRESOLVABLE\<close> branch with its two insertions.\<close>

lemma determine_run:
  assumes "determine_ambiguity_state extraction audit = Inr (state, audit')"
  obtains (unchanged) "audit' = audit" "state \<noteq> ''UNRESOLVABLE''"
      "determine_ambiguity_state extraction audit = Inr (state, audit)"
  | (flagged) confidence audit2 where
      "state = ''UNRESOLVABLE''"
      "py_get extraction ''overall_confidence'' (JNum 1) = Inr confidence"
      "py_ge confidence FLOAT_0_7 = Inr False"
      "has_candidates (dict_get_default audit ''ambiguities'' (JArr [])) = Inr False"
      "add_flag (if ''safety_flags'' \<notin> set (map fst audit)
                 then dict_set audit ''safety_flags'' (JArr []) else audit) FLAG_UNCLEAR = Inr audit2"
      "add_flag audit2 FLAG_NO_CANDIDATES = Inr audit'"
  using assms
  by (auto simp: determine_ambiguity_state_def Let_def split: sum.splits bool.splits)

lemma determine_fixed:
  assumes run: "determine_ambiguity_state extraction audit = Inr (state, audit')"
  shows "determine_ambiguity_state extraction audit' = Inr (state, audit')"
  using run
proof (cases rule: determine_run)
  case unchanged
  then show ?thesis by simp
next
  case (flagged confidence audit2)
  have amb: "dict_get_default audit' ''ambiguities'' (JArr []) =
             dict_get_default audit ''ambiguities'' (JArr [])"
    using add_flag_other_keys[OF flagged(5), of "''ambiguities''"]
      add_flag_other_keys[OF flagged(6), of "''ambiguities''"]
    by (simp add: dict_get_default_def map_of_dict_set)
  have h1: "has_flag audit' FLAG_UNCLEAR"
    using add_flag_keeps[OF flagged(6) add_flag_has[OF flagged(5)]] .
  have h2: "has_flag audit' FLAG_NO_CANDIDATES"
    using add_flag_has[OF flagged(6)] .
  have k: "''safety_flags'' \<in> set (map fst audit')"
    using add_flag_keys[OF flagged(6)] .
  show ?thesis
    using flagged(1-4) amb k
    by (simp add: determine_ambiguity_state_def add_flag_fixed[OF h1] add_flag_fixed[OF h2])
qed

lemma determine_count:
  assumes run: "determine_ambiguity_state extraction audit = Inr (state, audit')"
  shows "count_list (flag_list audit') (JStr g) \<le> max 1 (count_list (flag_list audit) (JStr g))"
  using run
proof (cases rule: determine_run)
  case unchanged
  then show ?thesis by simp
next
  case (flagged confidence audit2)
  define audit1 where "audit1 =
    (if ''safety_flags'' \<notin> set (map fst audit)
     then dict_set audit ''safety_flags'' (JArr []) else audit)"
  have same: "flag_list audit1 = flag_list audit"
    by (auto simp: audit1_def flag_list_def map_of_dict_set key_present)
  have "count_list (flag_list audit2) (JStr g) \<le> max 1 (count_list (flag_list audit1) (JStr g))"
    using add_flag_count[OF flagged(5)] by (simp add: audit1_def)
  moreover have "count_list (flag_list audit') (JStr g) \<le>
      max 1 (count_list (flag_list audit2) (JStr g))"
    using add_flag_count[OF flagged(6)] .
  ultimately show ?thesis
    using same by simp
qed

text \<open>
  C4.  Whenever the classification returns, classifying again with the same extraction
  and the audit it returned gives the same state and the same audit: a second run adds
  nothing.  And no run makes a duplicate: a string occurs in the safety flags after a run
  as often as before, or once when it was absent.
\<close>

theorem classification_idempotent:
  assumes run: "determine_ambiguity_state extraction audit = Inr (state, audit')"
  shows "determine_ambiguity_state extraction audit' = Inr (state, audit') \<and>
         count_list (flag_list audit') (JStr FLAG_UNCLEAR)
           \<le> max 1 (count_list (flag_list audit) (JStr FLAG_UNCLEAR)) \<and>
         count_list (flag_list audit') (JStr FLAG_NO_CANDIDATES)
           \<le> max 1 (count_list (flag_list audit) (JStr FLAG_NO_CANDIDATES))"
  using determine_fixed[OF run] determine_count[OF run] by simp

text \<open>Confidence 0.5 and no ambiguity, classified twice: the two fixed flags, once each.\<close>

theorem classification_idempotent_witness:
  "determine_ambiguity_state (JObj [(''overall_confidence'', JNum (1 / 2))])
     [(''ambiguities'', JArr []), (''safety_flags'', JArr [])] =
   Inr (''UNRESOLVABLE'',
        [(''ambiguities'', JArr []),
         (''safety_flags'', JArr [JStr FLAG_UNCLEAR, JStr FLAG_NO_CANDIDATES])])
   \<and>
   determine_ambiguity_state (JObj [(''overall_confidence'', JNum (1 / 2))])
     [(''ambiguities'', JArr []),
      (''safety_flags'', JArr [JStr FLAG_UNCLEAR, JStr FLAG_NO_CANDIDATES])] =
   Inr (''UNRESOLVABLE'',
        [(''ambiguities'', JArr []),
         (''safety_flags'', JArr [JStr FLAG_UNCLEAR, JStr FLAG_NO_CANDIDATES])])"
proof -
  have first: "determine_ambiguity_state (JObj [(''overall_confidence'', JNum (1 / 2))])
     [(''ambiguities'', JArr []), (''safety_flags'', JArr [])] =
   Inr (''UNRESOLVABLE'',
        [(''ambiguities'', JArr []),
         (''safety_flags'', JArr [JStr FLAG_UNCLEAR, JStr FLAG_NO_CANDIDATES])])"
    by (simp add: determine_ambiguity_state_def dict_get_default_def has_candidates_def
        add_flag_def dict_set_def FLAG_UNCLEAR_def FLAG_NO_CANDIDATES_def FLOAT_0_7_def)
  from classification_idempotent[OF first] first show ?thesis by simp
qed

section \<open>The streaming client\<close>

lemma stream_sent: "snd (stream env sent msgs p) = sent @ [build_request env msgs p]"
  by (simp add: stream_def Let_def split: sum.splits)

text \<open>
  C8.  When the endpoint answers with a status other than 200 (so with every status that
  is not a success), the stream ends with the exception whose message carries the status
  code and the text of the response, and has yielded nothing.  The exception is Python's
  \<^verbatim>\<open>ValueError\<close>.
\<close>

theorem stream_error_status:
  assumes "server env (sent @ [build_request env msgs p]) = Inr response"
    and "status_code response \<noteq> 200"
  shows "stream env sent msgs p =
     (([], Some (ValueError (''API Error '' @ str_int (status_code response) @ '': '' @
                             response_text response))),
      sent @ [build_request env msgs p])"
  using assms by (simp add: stream_def Let_def)

theorem stream_error_status_witness:
  "fst (stream
     (demo_env [\<lparr>status_code = 503, response_text = ''Service Unavailable'',
                 response_lines = [''data: [DONE]'']\<rparr>])
     [] [] default_params) =
   ([], Some (ValueError ''API Error 503: Service Unavailable''))"
proof -
  have d: "str_int 503 = ''503''"
    by code_simp
  have "server (demo_env [\<lparr>status_code = 503, response_text = ''Service Unavailable'',
                 response_lines = [''data: [DONE]'']\<rparr>])
          ([] @ [build_request (demo_env [\<lparr>status_code = 503,
                 response_text = ''Service Unavailable'',
                 response_lines = [''data: [DONE]'']\<rparr>]) [] default_params]) =
        Inr \<lparr>status_code = 503, response_text = ''Service Unavailable'',
                 response_lines = [''data: [DONE]'']\<rparr>"
    by (simp add: demo_env_def scripted_server_def)
  from stream_error_status[OF this] d show ?thesis
    by simp
qed

text \<open>
  C5.  A body of four data lines: a chunk with content \<open>Take one \<close>, the payload
  \<^verbatim>\<open>null\<close>, a chunk with content \<open>tablet.\<close>, and \<^verbatim>\<open>[DONE]\<close>.  The payload
  \<^verbatim>\<open>null\<close> decodes, and \<^verbatim>\<open>None["choices"]\<close> raises \<^verbatim>\<open>TypeError\<close>, which the handler of
  line 109 does not catch: the stream yields the first fragment and ends with the
  exception, and the second fragment is never yielded.
\<close>

theorem stream_aborts_on_null_payload:
  "fst (stream
     (demo_env [\<lparr>status_code = 200, response_text = [],
                 response_lines =
                   [''data: '' @ chunk_text ''Take one '',
                    ''data: null'',
                    ''data: '' @ chunk_text ''tablet.'',
                    ''data: [DONE]'']\<rparr>])
     [] [] default_params) =
   ([JStr ''Take one ''], Some TypeError)"
  by code_simp

section \<open>The system message of a chat turn\<close>

lemma loop_step_session: "fst (snd (loop_step s chunks ending full)) = s"
  by (induction s chunks ending full rule: loop_step.induct) simp_all

lemma save_if_active_memory [simp]: "memory (save_if_active s who txt) = memory s"
  by (simp add: save_if_active_def split: option.splits)

lemma save_if_active_sent [simp]: "sent_requests (save_if_active s who txt) = sent_requests s"
  by (simp add: save_if_active_def split: option.splits)

lemma first_next_sent:
  "sent_requests (fst (snd (stream_with_mode env t (s, Created)))) =
   sent_requests s @ [build_request env (turn_messages env (memory s) t) (model_params t)]"
  by (simp add: Let_def loop_step_session stream_sent)

lemma safety_rule_split:
  "SAFETY_RULE =
     ''\<newline>\<newline>SAFETY RULE: The current prescription handwriting is UNRESOLVABLE. '' @
     ''Do NOT infer or suggest medicine names'' @
     '' unless the user explicitly provides them in this chat. Avoid all guesses.''"
  by (simp add: SAFETY_RULE_def)

text \<open>
  C2, as amended.  For every mode (known or not), every context and every history, when
  the ambiguity state is \<open>UNRESOLVABLE\<close> the first message of the request the turn sends
  is the system message, and its text contains the safety directive of line 155 whole,
  and so the words \<open>Do NOT infer or suggest medicine names\<close>.
\<close>

theorem safety_rule_injected:
  assumes "ambiguity_state t = ''UNRESOLVABLE''"
  shows "sublist SAFETY_RULE (combined_system env t) \<and>
         sublist ''Do NOT infer or suggest medicine names'' (combined_system env t) \<and>
         hd (turn_messages env (memory s) t) =
           \<lparr>role = ''system'', content = Parts [TextPart (combined_system env t)]\<rparr> \<and>
         sent_requests (fst (snd (stream_with_mode env t (s, Created)))) =
           sent_requests s @
           [build_request env (turn_messages env (memory s) t) (model_params t)]"
proof -
  let ?ctx = "''\<newline>\<newline>'' @
      ''Context: The following verified data was extracted from the prescription: '' @
      json_dumps env (extraction_context t)"
  have whole: "combined_system env t = get_mode_prompt (mode t) @ SAFETY_RULE @ ?ctx"
    using assms by (simp add: combined_system_def Let_def)
  have a: "sublist SAFETY_RULE (combined_system env t)"
    unfolding whole sublist_def by blast
  have "combined_system env t =
      (get_mode_prompt (mode t) @
       ''\<newline>\<newline>SAFETY RULE: The current prescription handwriting is UNRESOLVABLE. '') @
      ''Do NOT infer or suggest medicine names'' @
      ('' unless the user explicitly provides them in this chat. Avoid all guesses.'' @ ?ctx)"
    unfolding whole safety_rule_split by simp
  then have b: "sublist ''Do NOT infer or suggest medicine names'' (combined_system env t)"
    unfolding sublist_def by blast
  have c: "hd (turn_messages env (memory s) t) =
           \<lparr>role = ''system'', content = Parts [TextPart (combined_system env t)]\<rparr>"
    by (simp add: turn_messages_def)
  from a b c first_next_sent show ?thesis by blast
qed

theorem safety_rule_injected_witness:
  "sublist SAFETY_RULE
     (combined_system (demo_env []) (demo_turn ''Create Schedule'' ''UNRESOLVABLE'')) \<and>
   sublist ''Do NOT infer or suggest medicine names''
     (combined_system (demo_env []) (demo_turn ''Create Schedule'' ''UNRESOLVABLE''))"
proof -
  have "ambiguity_state (demo_turn ''Create Schedule'' ''UNRESOLVABLE'') = ''UNRESOLVABLE''"
    by (simp add: demo_turn_def)
  from safety_rule_injected[OF this, of "demo_env []" demo_session] show ?thesis
    by blast
qed

text \<open>
  The claim as worded asks for the words followed by a full stop.  In the directive they
  are followed by \<open> unless the user\<close>; with the mode \<open>Explain Prescription\<close> and an empty
  context the system message nowhere holds them followed by a full stop.
\<close>

theorem safety_substring_counterexample:
  "ambiguity_state (demo_turn ''Explain Prescription'' ''UNRESOLVABLE'') = ''UNRESOLVABLE'' \<and>
   \<not> sublist ''Do NOT infer or suggest medicine names.''
       (combined_system (demo_env []) (demo_turn ''Explain Prescription'' ''UNRESOLVABLE''))"
  by code_simp

text \<open>
  C6, as amended.  A mode that is not a key of \<^verbatim>\<open>MODE_PROMPTS\<close> does not make the turn
  fail: \<^verbatim>\<open>get_mode_prompt\<close> gives the default instruction, the system message starts
  with it, and the request is sent.
\<close>

theorem unknown_mode_defaults:
  assumes "mode t \<notin> set (map fst MODE_PROMPTS)"
  shows "get_mode_prompt (mode t) = ''You are a helpful medical assistant.'' \<and>
         prefix ''You are a helpful medical assistant.'' (combined_system env t) \<and>
         hd (turn_messages env (memory s) t) =
           \<lparr>role = ''system'', content = Parts [TextPart (combined_system env t)]\<rparr> \<and>
         sent_requests (fst (snd (stream_with_mode env t (s, Created)))) =
           sent_requests s @
           [build_request env (turn_messages env (memory s) t) (model_params t)]"
proof -
  from assms have none: "map_of MODE_PROMPTS (mode t) = None"
    by (simp add: map_of_eq_None_iff)
  then have a: "get_mode_prompt (mode t) = ''You are a helpful medical assistant.''"
    by (simp add: get_mode_prompt_def)
  have b: "prefix ''You are a helpful medical assistant.'' (combined_system env t)"
    unfolding combined_system_def Let_def a by (simp del: append.simps add: prefix_def)
  have c: "hd (turn_messages env (memory s) t) =
           \<lparr>role = ''system'', content = Parts [TextPart (combined_system env t)]\<rparr>"
    by (simp add: turn_messages_def)
  from a b c first_next_sent show ?thesis by blast
qed

theorem unknown_mode_defaults_witness:
  "get_mode_prompt (mode (demo_turn ''Safety Check'' ''CLEAR'')) =
     ''You are a helpful medical assistant.'' \<and>
   prefix ''You are a helpful medical assistant.''
     (combined_system (demo_env []) (demo_turn ''Safety Check'' ''CLEAR''))"
proof -
  have "mode (demo_turn ''Safety Check'' ''CLEAR'') \<notin> set (map fst MODE_PROMPTS)"
    by (simp add: demo_turn_def MODE_PROMPTS_def)
  from unknown_mode_defaults[OF this, of "demo_env []" demo_session] show ?thesis
    by blast
qed

text \<open>
  The claim asks for a failure.  With the mode \<open>Safety Check\<close>, which is no key of
  \<^verbatim>\<open>MODE_PROMPTS\<close>, the turn runs to its end: the two fragments of the model, the
  disclaimer, and the end of the iteration, with no exception.
\<close>

theorem unknown_mode_counterexample:
  "map_of MODE_PROMPTS ''Safety Check'' = None \<and>
   fst (pull 4
     (stream_with_mode (demo_env [ok_response [''Take one '', ''tablet.'']])
        (demo_turn ''Safety Check'' ''CLEAR''))
     (demo_session, Created)) =
   [Yield ''Take one '', Yield ''tablet.'', Yield GLOBAL_DISCLAIMER, StopIteration]"
  by code_simp

section \<open>Driving the generator of a chat turn\<close>

lemma pull_Suc_same:
  "nx sg = nx sg' \<Longrightarrow> pull (Suc n) nx sg = pull (Suc n) nx sg'"
  by (simp split: event.splits)

lemma first_next_as_loop:
  "stream_with_mode env t (s, Created) =
   stream_with_mode env t
     ((save_if_active (s\<lparr>memory := memory s @ [HumanMessage (user_query t)]\<rparr>)
         ''user'' (user_query t))
        \<lparr>sent_requests :=
           sent_requests s @
           [build_request env (turn_messages env (memory s) t) (model_params t)]\<rparr>,
      AtChunk
        (fst (fst (stream env (sent_requests s) (turn_messages env (memory s) t)
                     (model_params t))))
        (snd (fst (stream env (sent_requests s) (turn_messages env (memory s) t)
                     (model_params t))))
        [])"
  by (simp add: Let_def stream_sent)

text \<open>A turn that runs to the end of the iteration, from inside the loop.\<close>

lemma pull_completed:
  assumes "pull n (stream_with_mode env t) (s, AtChunk rest ending full) = (evs, s', g)"
    and "evs \<noteq> []" and "last evs = StopIteration"
  shows "\<exists>frags. rest = map JStr frags \<and> ending = None \<and>
           evs = map Yield frags @ [Yield GLOBAL_DISCLAIMER, StopIteration] \<and>
           s' = save_if_active
                  (s\<lparr>memory := memory s @ [AIMessage (full @ concat frags @ GLOBAL_DISCLAIMER)]\<rparr>)
                  ''assistant'' (full @ concat frags @ GLOBAL_DISCLAIMER)"
  using assms
proof (induction rest arbitrary: n full evs)
  case Nil
  then obtain m where n: "n = Suc m" by (cases n) auto
  show ?case
  proof (cases ending)
    case None
    with Nil n obtain k where m: "m = Suc k" by (cases m) auto
    with Nil n None show ?thesis by auto
  next
    case (Some e)
    with Nil n show ?thesis by auto
  qed
next
  case (Cons c rest)
  then obtain m where n: "n = Suc m" by (cases n) auto
  show ?case
  proof (cases c)
    case (JStr chunk)
    define evs1 where
      "evs1 = fst (pull m (stream_with_mode env t) (s, AtChunk rest ending (full @ chunk)))"
    from Cons.prems(1) n JStr have evs: "evs = Yield chunk # evs1"
      and rec: "pull m (stream_with_mode env t) (s, AtChunk rest ending (full @ chunk))
                = (evs1, s', g)"
      by (auto simp: evs1_def prod_eq_iff)
    with Cons.prems have "evs1 \<noteq> []" and "last evs1 = StopIteration"
      by (auto split: if_splits)
    from Cons.IH[OF rec this] obtain frags where
      "rest = map JStr frags" "ending = None"
      "evs1 = map Yield frags @ [Yield GLOBAL_DISCLAIMER, StopIteration]"
      "s' = save_if_active
             (s\<lparr>memory := memory s @
                  [AIMessage ((full @ chunk) @ concat frags @ GLOBAL_DISCLAIMER)]\<rparr>)
             ''assistant'' ((full @ chunk) @ concat frags @ GLOBAL_DISCLAIMER)"
      by blast
    with evs JStr show ?thesis
      by (intro exI[of _ "chunk # frags"]) simp
  qed (use Cons.prems n in auto)
qed

text \<open>
  C7.  A turn is completed when the caller, asking for item after item, reaches the end
  of the iteration.  Then the client's stream ended normally and yielded strings only;
  the items of the turn are those strings followed by one more, the disclaimer; and the
  history has grown by exactly two messages, the user's text and then the assistant's
  reply: the strings joined, with the disclaimer after them.
\<close>

theorem completed_turn:
  assumes "pull n (stream_with_mode env t) (s, Created) = (evs, s', g)"
    and "evs \<noteq> []" and "last evs = StopIteration"
  shows "\<exists>frags.
           fst (stream env (sent_requests s) (turn_messages env (memory s) t) (model_params t))
             = (map JStr frags, None) \<and>
           evs = map Yield frags @ [Yield GLOBAL_DISCLAIMER, StopIteration] \<and>
           memory s' = memory s @
             [HumanMessage (user_query t), AIMessage (concat frags @ GLOBAL_DISCLAIMER)]"
proof -
  from assms(1,2) obtain m where n: "n = Suc m" by (cases n) auto
  let ?run = "stream env (sent_requests s) (turn_messages env (memory s) t) (model_params t)"
  let ?s2 = "(save_if_active (s\<lparr>memory := memory s @ [HumanMessage (user_query t)]\<rparr>)
         ''user'' (user_query t))
        \<lparr>sent_requests :=
           sent_requests s @
           [build_request env (turn_messages env (memory s) t) (model_params t)]\<rparr>"
  have "pull (Suc m) (stream_with_mode env t) (?s2, AtChunk (fst (fst ?run)) (snd (fst ?run)) [])
        = (evs, s', g)"
    using assms(1) pull_Suc_same[OF first_next_as_loop[of env t s], where n = m] unfolding n by simp
  from pull_completed[OF this assms(2,3)] obtain frags where
    f: "fst (fst ?run) = map JStr frags" "snd (fst ?run) = None"
      "evs = map Yield frags @ [Yield GLOBAL_DISCLAIMER, StopIteration]"
      "s' = save_if_active
              (?s2\<lparr>memory := memory ?s2 @ [AIMessage ([] @ concat frags @ GLOBAL_DISCLAIMER)]\<rparr>)
              ''assistant'' ([] @ concat frags @ GLOBAL_DISCLAIMER)"
    by blast
  from f(1,2) have "fst ?run = (map JStr frags, None)"
    by (simp add: prod_eq_iff)
  moreover from f(4) have "memory s' = memory s @
             [HumanMessage (user_query t), AIMessage (concat frags @ GLOBAL_DISCLAIMER)]"
    by simp
  ultimately show ?thesis using f(3) by blast
qed

text \<open>A turn of two fragments, run to its end: four answers, the last one the end of the
  iteration; two messages in a history that was empty.\<close>

theorem completed_turn_witness:
  "fst (pull 4
     (stream_with_mode (demo_env [ok_response [''Take one '', ''tablet.'']])
        (demo_turn ''Explain Prescription'' ''CLEAR''))
     (demo_session, Created)) =
   [Yield ''Take one '', Yield ''tablet.'', Yield GLOBAL_DISCLAIMER, StopIteration]
   \<and>
   (\<exists>frags.
      fst (pull 4
        (stream_with_mode (demo_env [ok_response [''Take one '', ''tablet.'']])
           (demo_turn ''Explain Prescription'' ''CLEAR''))
        (demo_session, Created)) =
      map Yield frags @ [Yield GLOBAL_DISCLAIMER, StopIteration] \<and>
      memory (fst (snd (pull 4
        (stream_with_mode (demo_env [ok_response [''Take one '', ''tablet.'']])
           (demo_turn ''Explain Prescription'' ''CLEAR''))
        (demo_session, Created)))) =
      memory demo_session @
        [HumanMessage (user_query (demo_turn ''Explain Prescription'' ''CLEAR'')),
         AIMessage (concat frags @ GLOBAL_DISCLAIMER)])"
proof -
  let ?p = "pull 4
     (stream_with_mode (demo_env [ok_response [''Take one '', ''tablet.'']])
        (demo_turn ''Explain Prescription'' ''CLEAR''))
     (demo_session, Created)"
  have evs: "fst ?p =
      [Yield ''Take one '', Yield ''tablet.'', Yield GLOBAL_DISCLAIMER, StopIteration]"
    by code_simp
  have run: "?p = (fst ?p, fst (snd ?p), snd (snd ?p))"
    by simp
  have ne: "fst ?p \<noteq> []" and lst: "last (fst ?p) = StopIteration"
    unfolding evs by simp_all
  from completed_turn[OF run ne lst] evs show ?thesis
    by blast
qed

section \<open>A turn the caller abandons\<close>

lemma pull_yields_only:
  assumes "pull n (stream_with_mode env t) (s, g0) = (evs, s', g)"
    and "list_all is_yield evs" and "g0 \<noteq> Created"
  shows "s' = s"
  using assms
proof (induction n arbitrary: g0 evs)
  case 0
  then show ?case by simp
next
  case (Suc n)
  show ?case
  proof (cases g0)
    case Created
    with Suc.prems show ?thesis by simp
  next
    case (AtChunk rest ending full)
    show ?thesis
    proof (cases rest)
      case Nil
      show ?thesis
      proof (cases ending)
        case None
        define evs1 where
          "evs1 = fst (pull n (stream_with_mode env t)
                         (s, AtDisclaimer (full @ GLOBAL_DISCLAIMER)))"
        from Suc.prems(1) AtChunk Nil None have evs: "evs = Yield GLOBAL_DISCLAIMER # evs1"
          and rec: "pull n (stream_with_mode env t) (s, AtDisclaimer (full @ GLOBAL_DISCLAIMER))
                    = (evs1, s', g)"
          by (auto simp: evs1_def prod_eq_iff)
        with Suc.prems(2) Suc.IH[OF rec] show ?thesis by simp
      next
        case (Some e)
        with Suc.prems AtChunk Nil show ?thesis by auto
      qed
    next
      case (Cons c rest')
      show ?thesis
      proof (cases c)
        case (JStr chunk)
        define evs1 where
          "evs1 = fst (pull n (stream_with_mode env t)
                         (s, AtChunk rest' ending (full @ chunk)))"
        from Suc.prems(1) AtChunk Cons JStr have evs: "evs = Yield chunk # evs1"
          and rec: "pull n (stream_with_mode env t) (s, AtChunk rest' ending (full @ chunk))
                    = (evs1, s', g)"
          by (auto simp: evs1_def prod_eq_iff)
        with Suc.prems(2) Suc.IH[OF rec] show ?thesis by simp
      qed (use Suc.prems AtChunk Cons in auto)
    qed
  next
    case (AtDisclaimer r)
    with Suc.prems show ?thesis by auto
  next
    case Closed
    with Suc.prems show ?thesis by auto
  qed
qed

text \<open>
  C9, as amended.  A caller that has asked for \<open>n\<close> items, got an item each time, and
  stops: when \<open>n = 0\<close> nothing has changed; otherwise the session is the one the first
  request left, whatever \<open>n\<close> is: the user's message appended to the history and saved,
  the request sent, and no assistant message.  Nothing is added after the first item.
\<close>

theorem abandoned_turn:
  assumes "pull n (stream_with_mode env t) (s, Created) = (evs, s', g)"
    and "list_all is_yield evs"
  shows "s' =
     (if n = 0 then s
      else (save_if_active (s\<lparr>memory := memory s @ [HumanMessage (user_query t)]\<rparr>)
              ''user'' (user_query t))
           \<lparr>sent_requests :=
              sent_requests s @
              [build_request env (turn_messages env (memory s) t) (model_params t)]\<rparr>) \<and>
     memory s' = (if n = 0 then memory s else memory s @ [HumanMessage (user_query t)])"
proof (cases n)
  case 0
  with assms show ?thesis by simp
next
  case (Suc m)
  let ?run = "stream env (sent_requests s) (turn_messages env (memory s) t) (model_params t)"
  let ?s2 = "(save_if_active (s\<lparr>memory := memory s @ [HumanMessage (user_query t)]\<rparr>)
         ''user'' (user_query t))
        \<lparr>sent_requests :=
           sent_requests s @
           [build_request env (turn_messages env (memory s) t) (model_params t)]\<rparr>"
  have "pull (Suc m) (stream_with_mode env t) (?s2, AtChunk (fst (fst ?run)) (snd (fst ?run)) [])
        = (evs, s', g)"
    using assms(1) pull_Suc_same[OF first_next_as_loop[of env t s], where n = m] unfolding Suc by simp
  from pull_yields_only[OF this assms(2)] have "s' = ?s2" by simp
  with Suc show ?thesis by simp
qed

theorem abandoned_turn_witness:
  "memory (fst (snd (pull 1
     (stream_with_mode (demo_env [ok_response [''Take one '', ''tablet.'']])
        (demo_turn ''Explain Prescription'' ''CLEAR''))
     (demo_session, Created)))) =
   memory demo_session @ [HumanMessage (user_query (demo_turn ''Explain Prescription'' ''CLEAR''))]"
proof -
  let ?p = "pull 1
     (stream_with_mode (demo_env [ok_response [''Take one '', ''tablet.'']])
        (demo_turn ''Explain Prescription'' ''CLEAR''))
     (demo_session, Created)"
  have evs: "fst ?p = [Yield ''Take one '']"
    by code_simp
  have run: "?p = (fst ?p, fst (snd ?p), snd (snd ?p))"
    by simp
  have ys: "list_all is_yield (fst ?p)"
    unfolding evs by simp
  from abandoned_turn[OF run ys] show ?thesis
    by simp
qed

text \<open>
  The claim asks that an abandoned turn appends nothing.  A caller that takes the first
  fragment of a two-fragment reply and stops has not exhausted the stream, and the
  history, empty before, holds the user's message.
\<close>

theorem abandoned_turn_counterexample:
  "memory demo_session = [] \<and>
   fst (pull 1
     (stream_with_mode (demo_env [ok_response [''Take one '', ''tablet.'']])
        (demo_turn ''Explain Prescription'' ''CLEAR''))
     (demo_session, Created)) = [Yield ''Take one ''] \<and>
   memory (fst (snd (pull 1
     (stream_with_mode (demo_env [ok_response [''Take one '', ''tablet.'']])
        (demo_turn ''Explain Prescription'' ''CLEAR''))
     (demo_session, Created)))) = [HumanMessage ''What is this medicine for?'']"
  by code_simp

section \<open>The safety gate\<close>

lemma call_sent:
  "snd (call_non_streaming env sent prompt q i) =
   sent @
   [build_request env
      [\<lparr>role = ''system'', content = Parts [TextPart prompt]\<rparr>,
       \<lparr>role = ''user'',
        content =
          (case i of
             None \<Rightarrow> Plain q
           | Some u \<Rightarrow> if u \<noteq> [] then Parts [ImagePart u, TextPart q] else Plain q)\<rparr>]
      (default_params\<lparr>temperature := FLOAT_0_1\<rparr>)]"
  by (simp add: call_non_streaming_def Let_def stream_sent)

lemma system_prompt_of_request:
  "system_prompt_of
     (build_request env (\<lparr>role = ''system'', content = Parts [TextPart p]\<rparr> # rest) ps) = Some p"
  by (simp add: system_prompt_of_def build_request_def)

lemma step_ocr_sent:
  "\<exists>r. snd (step_ocr env sent d) = sent @ [r] \<and> system_prompt_of r = Some OCR_PROMPT"
  by (simp add: step_ocr_def call_sent system_prompt_of_request get_step_prompt_def)

lemma step_normalize_sent: "\<exists>r. snd (step_normalize env sent raw) = sent @ [r]"
  by (simp add: step_normalize_def Let_def call_sent)

lemma step_audit_sent: "\<exists>r. snd (step_audit env sent raw e) = sent @ [r]"
  by (simp add: step_audit_def Let_def call_sent)

text \<open>Past the gate the first request is the one of the OCR stage.\<close>

lemma past_gate_sent:
  "\<exists>r more. snd (past_gate env sent d v) = sent @ r # more \<and>
             system_prompt_of r = Some OCR_PROMPT"
proof -
  obtain r where r: "snd (step_ocr env sent d) = sent @ [r]"
      "system_prompt_of r = Some OCR_PROMPT"
    using step_ocr_sent by blast
  show ?thesis
  proof (cases "fst (step_ocr env sent d)")
    case (Inl e)
    with r show ?thesis by (simp add: past_gate_def Let_def)
  next
    case ocr: (Inr raw)
    obtain r2 where r2: "snd (step_normalize env (sent @ [r]) raw) = (sent @ [r]) @ [r2]"
      using step_normalize_sent by blast
    show ?thesis
    proof (cases "fst (step_normalize env (sent @ [r]) raw)")
      case (Inl e)
      with r r2 ocr show ?thesis by (simp add: past_gate_def Let_def)
    next
      case ext: (Inr e)
      obtain r3 where r3: "snd (step_audit env ((sent @ [r]) @ [r2]) raw e) =
          ((sent @ [r]) @ [r2]) @ [r3]"
        using step_audit_sent by blast
      show ?thesis
      proof (cases "fst (step_audit env ((sent @ [r]) @ [r2]) raw e)")
        case (Inl e')
        with r r2 r3 ocr ext show ?thesis by (simp add: past_gate_def Let_def)
      next
        case (Inr a)
        with r r2 r3 ocr ext show ?thesis by (simp add: past_gate_def Let_def)
      qed
    qed
  qed
qed

lemma gate_blocks_not_prescription:
  "map_of v ''is_prescription'' = Some (JBool False) \<Longrightarrow> gate_blocks (JObj v) = Inr True"
  by (simp add: gate_blocks_def dict_get_default_def)

lemma gate_blocks_low_confidence:
  "map_of v ''confidence'' = Some (JNum c) \<Longrightarrow> c < FLOAT_0_7 \<Longrightarrow> gate_blocks (JObj v) = Inr True"
  by (simp add: gate_blocks_def dict_get_default_def)

lemma gate_blocks_pass:
  "map_of v ''is_prescription'' = Some (JBool True) \<Longrightarrow>
   map_of v ''confidence'' = Some (JNum c) \<Longrightarrow> FLOAT_0_7 \<le> c \<Longrightarrow>
   gate_blocks (JObj v) = Inr False"
  by (simp add: gate_blocks_def dict_get_default_def not_less)

text \<open>
  C1.  Let the validation stage complete and decode to an object.  If its
  \<open>is_prescription\<close> is false, or its \<open>confidence\<close> is a number below the float 0.70,
  the run
  returns the fixed rejection dict (with the validation itself, and with no
  \<open>ambiguity_state\<close> key) and sends no further request.  If \<open>is_prescription\<close> is true
  and the confidence is a number that is 0.70 or more, the run is the rest of the
  pipeline, and the request it sends next is the one of the OCR stage.
\<close>

theorem safety_gate:
  assumes val: "step_validation env sent (prepare_image_for_api env img) = (Inr (JObj v), sent1)"
  shows
    "(map_of v ''is_prescription'' = Some (JBool False) \<or>
      (\<exists>c. map_of v ''confidence'' = Some (JNum c) \<and> c < FLOAT_0_7)
      \<longrightarrow>
      analyze_prescription env sent img =
        (Inr (JObj
           [(''validation'', JObj v),
            (''extraction'', JObj [(''medicines'', JArr []), (''overall_confidence'', JNum 0)]),
            (''audit'',
               JObj [(''ambiguities'', JArr []),
                     (''safety_flags'', JArr [JStr ''Image rejected by safety gate.'']),
                     (''is_safe_to_display'', JBool False)]),
            (''raw_ocr'', JStr [])]),
         sent1))
     \<and>
     (map_of v ''is_prescription'' = Some (JBool True) \<and>
      (\<exists>c. map_of v ''confidence'' = Some (JNum c) \<and> FLOAT_0_7 \<le> c)
      \<longrightarrow>
      analyze_prescription env sent img =
        past_gate env sent1 (prepare_image_for_api env img) (JObj v) \<and>
      (\<exists>r more. snd (analyze_prescription env sent img) = sent1 @ r # more \<and>
                 system_prompt_of r = Some OCR_PROMPT))"
proof (intro conjI impI)
  assume "map_of v ''is_prescription'' = Some (JBool False) \<or>
      (\<exists>c. map_of v ''confidence'' = Some (JNum c) \<and> c < FLOAT_0_7)"
  then have "gate_blocks (JObj v) = Inr True"
    using gate_blocks_not_prescription gate_blocks_low_confidence by blast
  with val show "analyze_prescription env sent img =
        (Inr (JObj
           [(''validation'', JObj v),
            (''extraction'', JObj [(''medicines'', JArr []), (''overall_confidence'', JNum 0)]),
            (''audit'',
               JObj [(''ambiguities'', JArr []),
                     (''safety_flags'', JArr [JStr ''Image rejected by safety gate.'']),
                     (''is_safe_to_display'', JBool False)]),
            (''raw_ocr'', JStr [])]),
         sent1)"
    by (simp add: analyze_prescription_def Let_def rejection_def)
next
  assume pass: "map_of v ''is_prescription'' = Some (JBool True) \<and>
      (\<exists>c. map_of v ''confidence'' = Some (JNum c) \<and> FLOAT_0_7 \<le> c)"
  then have "gate_blocks (JObj v) = Inr False"
    using gate_blocks_pass by blast
  with val show run: "analyze_prescription env sent img =
        past_gate env sent1 (prepare_image_for_api env img) (JObj v)"
    by (simp add: analyze_prescription_def Let_def)
  show "\<exists>r more. snd (analyze_prescription env sent img) = sent1 @ r # more \<and>
                 system_prompt_of r = Some OCR_PROMPT"
    unfolding run by (rule past_gate_sent)
qed

text \<open>The boundary: a validation with confidence 0.69 is rejected after one request; one
  with confidence 0.7 goes on, and the second request carries the OCR prompt.\<close>

theorem safety_gate_witness:
  "fst (analyze_prescription (demo_env [ok_response [REPLY_DOUBT]]) [] ()) =
     Inr (JObj
       [(''validation'', JObj doubt_json),
        (''extraction'', JObj [(''medicines'', JArr []), (''overall_confidence'', JNum 0)]),
        (''audit'',
           JObj [(''ambiguities'', JArr []),
                 (''safety_flags'', JArr [JStr ''Image rejected by safety gate.'']),
                 (''is_safe_to_display'', JBool False)]),
        (''raw_ocr'', JStr [])])
   \<and> length (snd (analyze_prescription (demo_env [ok_response [REPLY_DOUBT]]) [] ())) = 1
   \<and> (\<exists>r more.
        snd (analyze_prescription (demo_env demo_replies) [] ()) =
          snd (step_validation (demo_env demo_replies) []
                 (prepare_image_for_api (demo_env demo_replies) ())) @ r # more \<and>
        system_prompt_of r = Some OCR_PROMPT)"
proof -
  let ?R = "demo_env [ok_response [REPLY_DOUBT]]"
  let ?P = "demo_env demo_replies"
  have r1: "fst (step_validation ?R [] (prepare_image_for_api ?R ())) = Inr (JObj doubt_json)"
    by code_simp
  then have r2: "step_validation ?R [] (prepare_image_for_api ?R ()) =
      (Inr (JObj doubt_json), snd (step_validation ?R [] (prepare_image_for_api ?R ())))"
    by (simp add: prod_eq_iff)
  have "map_of doubt_json ''confidence'' = Some (JNum FLOAT_0_69) \<and> FLOAT_0_69 < FLOAT_0_7"
    by (simp add: doubt_json_def FLOAT_0_69_def FLOAT_0_7_def)
  then have r3: "map_of doubt_json ''is_prescription'' = Some (JBool False) \<or>
      (\<exists>c. map_of doubt_json ''confidence'' = Some (JNum c) \<and> c < FLOAT_0_7)"
    by blast
  have r4: "length (snd (step_validation ?R [] (prepare_image_for_api ?R ()))) = 1"
    by (simp add: step_validation_def Let_def call_sent)
  have p1: "fst (step_validation ?P [] (prepare_image_for_api ?P ())) = Inr (JObj valid_json)"
    by code_simp
  then have p2: "step_validation ?P [] (prepare_image_for_api ?P ()) =
      (Inr (JObj valid_json), snd (step_validation ?P [] (prepare_image_for_api ?P ())))"
    by (simp add: prod_eq_iff)
  have "map_of valid_json ''is_prescription'' = Some (JBool True) \<and>
      map_of valid_json ''confidence'' = Some (JNum FLOAT_0_7) \<and> FLOAT_0_7 \<le> FLOAT_0_7"
    by (simp add: valid_json_def)
  then have p3: "map_of valid_json ''is_prescription'' = Some (JBool True) \<and>
      (\<exists>c. map_of valid_json ''confidence'' = Some (JNum c) \<and> FLOAT_0_7 \<le> c)"
    by blast
  from safety_gate[OF r2] r3 have a:
    "analyze_prescription ?R [] () =
       (Inr (JObj
         [(''validation'', JObj doubt_json),
          (''extraction'', JObj [(''medicines'', JArr []), (''overall_confidence'', JNum 0)]),
          (''audit'',
             JObj [(''ambiguities'', JArr []),
                   (''safety_flags'', JArr [JStr ''Image rejected by safety gate.'']),
                   (''is_safe_to_display'', JBool False)]),
          (''raw_ocr'', JStr [])]),
        snd (step_validation ?R [] (prepare_image_for_api ?R ())))"
    by blast
  from safety_gate[OF p2] p3 have b:
    "\<exists>r more.
        snd (analyze_prescription ?P [] ()) =
          snd (step_validation ?P [] (prepare_image_for_api ?P ())) @ r # more \<and>
        system_prompt_of r = Some OCR_PROMPT"
    by blast
  from a r4 have "fst (analyze_prescription ?R [] ()) =
       Inr (JObj
         [(''validation'', JObj doubt_json),
          (''extraction'', JObj [(''medicines'', JArr []), (''overall_confidence'', JNum 0)]),
          (''audit'',
             JObj [(''ambiguities'', JArr []),
                   (''safety_flags'', JArr [JStr ''Image rejected by safety gate.'']),
                   (''is_safe_to_display'', JBool False)]),
          (''raw_ocr'', JStr [])])"
    and "length (snd (analyze_prescription ?R [] ())) = 1"
    by simp_all
  with b show ?thesis
    by blast
qed

section \<open>An extraction without a confidence\<close>

lemma determine_without_confidence:
  "''overall_confidence'' \<notin> set (map fst e) \<Longrightarrow>
   determine_ambiguity_state (JObj e) audit = Inr (''CLEAR'', audit)"
  by (simp add: determine_ambiguity_state_def dict_get_default_def key_present FLOAT_0_7_def)

text \<open>
  C10.  Let a run pass the gate and let its stages complete, the normalization decoding
  to an object with no \<open>overall_confidence\<close> key and the audit decoding to an object.
  Then the run returns with the ambiguity state \<open>CLEAR\<close>, whatever the audit holds, and
  the audit is returned as decoded, with the validation stored in it.
\<close>

theorem missing_confidence_is_clear:
  assumes "step_validation env sent (prepare_image_for_api env img) = (Inr validation, s1)"
    and "gate_blocks validation = Inr False"
    and "step_ocr env s1 (prepare_image_for_api env img) = (Inr raw_ocr, s2)"
    and "step_normalize env s2 raw_ocr = (Inr (JObj e), s3)"
    and "''overall_confidence'' \<notin> set (map fst e)"
    and "step_audit env s3 raw_ocr (JObj e) = (Inr (JObj a), s4)"
  shows "analyze_prescription env sent img =
     (Inr (JObj
        [(''validation'', validation),
         (''extraction'', JObj e),
         (''audit'', JObj (dict_set a ''validation'' validation)),
         (''raw_ocr'', JStr raw_ocr),
         (''ambiguity_state'', JStr ''CLEAR'')]),
      s4)"
  using assms
  by (simp add: analyze_prescription_def past_gate_def Let_def classify_and_return_def
      determine_without_confidence del: set_map)

text \<open>A run whose extraction has no confidence and whose audit reports an ambiguity
  without options: the state is \<open>CLEAR\<close>.\<close>

theorem missing_confidence_is_clear_witness:
  "fst (analyze_prescription (demo_env demo_replies) [] ()) =
     Inr (JObj
        [(''validation'', JObj valid_json),
         (''extraction'', JObj extraction_json),
         (''audit'', JObj (dict_set audit_json ''validation'' (JObj valid_json))),
         (''raw_ocr'', JStr REPLY_OCR),
         (''ambiguity_state'', JStr ''CLEAR'')])"
proof -
  let ?P = "demo_env demo_replies"
  let ?d = "prepare_image_for_api ?P ()"
  let ?s1 = "snd (step_validation ?P [] ?d)"
  let ?s2 = "snd (step_ocr ?P ?s1 ?d)"
  let ?s3 = "snd (step_normalize ?P ?s2 REPLY_OCR)"
  let ?s4 = "snd (step_audit ?P ?s3 REPLY_OCR (JObj extraction_json))"
  have "fst (step_validation ?P [] ?d) = Inr (JObj valid_json)"
    by code_simp
  then have h1: "step_validation ?P [] ?d = (Inr (JObj valid_json), ?s1)"
    by (simp add: prod_eq_iff)
  have h2: "gate_blocks (JObj valid_json) = Inr False"
    by (simp add: gate_blocks_def valid_json_def dict_get_default_def)
  have "fst (step_ocr ?P ?s1 ?d) = Inr REPLY_OCR"
    by code_simp
  then have h3: "step_ocr ?P ?s1 ?d = (Inr REPLY_OCR, ?s2)"
    by (simp add: prod_eq_iff)
  have "fst (step_normalize ?P ?s2 REPLY_OCR) = Inr (JObj extraction_json)"
    by code_simp
  then have h4: "step_normalize ?P ?s2 REPLY_OCR = (Inr (JObj extraction_json), ?s3)"
    by (simp add: prod_eq_iff)
  have h5: "''overall_confidence'' \<notin> set (map fst extraction_json)"
    by (simp add: extraction_json_def)
  have "fst (step_audit ?P ?s3 REPLY_OCR (JObj extraction_json)) = Inr (JObj audit_json)"
    by code_simp
  then have h6: "step_audit ?P ?s3 REPLY_OCR (JObj extraction_json) = (Inr (JObj audit_json), ?s4)"
    by (simp add: prod_eq_iff)
  from missing_confidence_is_clear[OF h1 h2 h3 h4 h5 h6] show ?thesis
    by simp
qed

end
